theory Spec2Isabelle
  imports Main
begin

section \<open>Errors\<close>

text \<open>
  Every Go \<open>error\<close> value the modelled functions can return. \<open>Wrapped\<close> is
  \<open>fmt.Errorf("...: %w", err)\<close>: a context string around the cause.
\<close>

datatype error =
    GetwdError
  | ExecError
  | QueryError
  | ReadFileError
  | UnmarshalError
  | TimeParseError
  | InvalidTimestampFormat
  | ErrSyntax
  | ErrRange
  | WalkDirError
  | Wrapped string error

section \<open>Channel name to database filename\<close>

text \<open>
  \<open>strings.NewReplacer\<close> with one-byte old and new strings is Go's byte replacer: every
  byte of the input is looked up in the table, and of two pairs with the same old byte the
  earlier one wins. Go strings are byte sequences, as \<open>string\<close> is here.
\<close>

type_synonym Replacer = "(char \<times> char) list"

definition Replace :: "Replacer \<Rightarrow> string \<Rightarrow> string" where
  "Replace r s = map (\<lambda>c. case map_of r c of Some n \<Rightarrow> n | None \<Rightarrow> c) s"

text \<open>\<open>sanitizeFilename\<close> of package \<open>database\<close>.\<close>

definition database_sanitizeFilename :: "string \<Rightarrow> string" where
  "database_sanitizeFilename name =
     Replace [(CHR '':'', CHR ''_''),
              (CHR ''/'', CHR ''_''),
              (CHR 0x5C, CHR ''_''),
              (CHR ''*'', CHR ''_''),
              (CHR ''?'', CHR ''_''),
              (CHR 0x22, CHR ''_''),
              (CHR ''<'', CHR ''_''),
              (CHR ''>'', CHR ''_''),
              (CHR ''|'', CHR ''_''),
              (CHR '' '', CHR ''_'')] name"

text \<open>\<open>sanitizeFilename\<close> of package \<open>searcher\<close>, a second copy of the function.\<close>

definition searcher_sanitizeFilename :: "string \<Rightarrow> string" where
  "searcher_sanitizeFilename name =
     Replace [(CHR '':'', CHR ''_''),
              (CHR ''/'', CHR ''_''),
              (CHR 0x5C, CHR ''_''),
              (CHR ''*'', CHR ''_''),
              (CHR ''?'', CHR ''_''),
              (CHR 0x22, CHR ''_''),
              (CHR ''<'', CHR ''_''),
              (CHR ''>'', CHR ''_''),
              (CHR ''|'', CHR ''_''),
              (CHR '' '', CHR ''_'')] name"

text \<open>The bytes both tables replace: \<open>: / \ * ? " < > |\<close> and the space.\<close>

definition disallowed :: "char set" where
  "disallowed = {CHR '':'', CHR ''/'', CHR 0x5C, CHR ''*'', CHR ''?'', CHR 0x22,
                 CHR ''<'', CHR ''>'', CHR ''|'', CHR '' ''}"

section \<open>Does the database file exist?\<close>

text \<open>
  What the process sees of its surroundings: \<open>cwd\<close> is the result of \<open>os.Getwd\<close>
  (\<open>None\<close> when the working directory cannot be determined), \<open>files\<close> the paths of the
  files that exist.
\<close>

record Env =
  cwd :: "string option"
  files :: "string list"

definition IsAbs :: "string \<Rightarrow> bool" where
  "IsAbs path = (case path of [] \<Rightarrow> False | c # _ \<Rightarrow> c = CHR ''/'')"

text \<open>
  \<open>filepath.Join\<close> of a directory name and a file name. Both callers pass
  \<open>"databases"\<close> and a sanitized name ending in \<open>.db\<close>, which has no separator and is
  neither \<open>.\<close> nor \<open>..\<close>, so the cleaning that \<open>Join\<close> does leaves the path as it is.
\<close>

definition Join :: "string \<Rightarrow> string \<Rightarrow> string" where
  "Join dir file = dir @ ''/'' @ file"

text \<open>
  The error result of \<open>filepath.Abs\<close> (Unix): none for an absolute path, otherwise that
  of \<open>os.Getwd\<close>. The path result is not modelled: the only caller discards it.
\<close>

definition Abs_err :: "Env \<Rightarrow> string \<Rightarrow> error option" where
  "Abs_err env path =
     (if IsAbs path then None
      else case cwd env of None \<Rightarrow> Some GetwdError | Some wd \<Rightarrow> None)"

definition fileExists :: "Env \<Rightarrow> string \<Rightarrow> bool" where
  "fileExists env filename = (Abs_err env filename = None)"

definition ValidateDatabaseExists :: "Env \<Rightarrow> string \<Rightarrow> bool" where
  "ValidateDatabaseExists env channelName =
     (let filename = searcher_sanitizeFilename channelName @ ''.db'';
          dbPath = Join ''databases'' filename
      in fileExists env dbPath)"

definition env_no_databases :: Env where
  "env_no_databases = \<lparr>cwd = Some ''/home/user/k8s-slack-searcher'', files = []\<rparr>"

section \<open>Library functions: strings, strconv, time\<close>

text \<open>
  The functions of Go's standard library that the indexer calls, written from their
  documented behaviour. Strings are byte sequences.
\<close>

definition HasSuffix :: "string \<Rightarrow> string \<Rightarrow> bool" where
  "HasSuffix s suffix =
     (length suffix \<le> length s \<and> drop (length s - length suffix) s = suffix)"

definition TrimSuffix :: "string \<Rightarrow> string \<Rightarrow> string" where
  "TrimSuffix s suffix =
     (if HasSuffix s suffix then take (length s - length suffix) s else s)"

text \<open>
  \<open>strings.Split\<close> with a one-byte separator: one more part than there are separators,
  so the empty string gives one empty part.
\<close>

fun Split :: "string \<Rightarrow> char \<Rightarrow> string list" where
  "Split [] sep = [[]]"
| "Split (c # cs) sep =
     (if c = sep then [] # Split cs sep
      else case Split cs sep of [] \<Rightarrow> [[c]] | p # ps \<Rightarrow> (c # p) # ps)"

text \<open>
  The UTF-8 encodings of the code points \<open>unicode.IsSpace\<close> accepts: U+0009 to U+000D,
  U+0020, U+0085, U+00A0, U+1680, U+2000 to U+200A, U+2028, U+2029, U+202F, U+205F,
  U+3000.
\<close>

definition unicodeSpaces :: "string list" where
  "unicodeSpaces =
     [[CHR 0x09], [CHR 0x0A], [CHR 0x0B], [CHR 0x0C], [CHR 0x0D], [CHR 0x20],
      [CHR 0xC2, CHR 0x85], [CHR 0xC2, CHR 0xA0],
      [CHR 0xE1, CHR 0x9A, CHR 0x80],
      [CHR 0xE2, CHR 0x80, CHR 0x80], [CHR 0xE2, CHR 0x80, CHR 0x81],
      [CHR 0xE2, CHR 0x80, CHR 0x82], [CHR 0xE2, CHR 0x80, CHR 0x83],
      [CHR 0xE2, CHR 0x80, CHR 0x84], [CHR 0xE2, CHR 0x80, CHR 0x85],
      [CHR 0xE2, CHR 0x80, CHR 0x86], [CHR 0xE2, CHR 0x80, CHR 0x87],
      [CHR 0xE2, CHR 0x80, CHR 0x88], [CHR 0xE2, CHR 0x80, CHR 0x89],
      [CHR 0xE2, CHR 0x80, CHR 0x8A],
      [CHR 0xE2, CHR 0x80, CHR 0xA8], [CHR 0xE2, CHR 0x80, CHR 0xA9],
      [CHR 0xE2, CHR 0x80, CHR 0xAF],
      [CHR 0xE2, CHR 0x81, CHR 0x9F],
      [CHR 0xE3, CHR 0x80, CHR 0x80]]"

text \<open>Removes from the front of a string every leading occurrence of one of \<open>seqs\<close>.\<close>

fun trimLeading :: "string list \<Rightarrow> string \<Rightarrow> string" where
  "trimLeading seqs [] = []"
| "trimLeading seqs (c # cs) =
     (case find (\<lambda>p. p \<noteq> [] \<and> take (length p) (c # cs) = p) seqs of
        None \<Rightarrow> c # cs
      | Some p \<Rightarrow> trimLeading seqs (drop (length p - 1) cs))"

text \<open>\<open>strings.TrimSpace\<close>: leading and trailing white space removed.\<close>

definition TrimSpace :: "string \<Rightarrow> string" where
  "TrimSpace s =
     rev (trimLeading (map rev unicodeSpaces) (rev (trimLeading unicodeSpaces s)))"

definition isDigit :: "char \<Rightarrow> bool" where
  "isDigit c = (48 \<le> (of_char c :: nat) \<and> (of_char c :: nat) \<le> 57)"

definition digit :: "char \<Rightarrow> int" where
  "digit c = of_char c - 48"

text \<open>
  The loop of \<open>strconv.ParseUint(s, 10, 64)\<close>: a byte that is no decimal digit is a
  syntax error, a value of \<open>2^64\<close> or more a range error, whichever comes first.
\<close>

fun ParseUint_loop :: "int \<Rightarrow> string \<Rightarrow> error + int" where
  "ParseUint_loop n [] = Inr n"
| "ParseUint_loop n (c # cs) =
     (if \<not> isDigit c then Inl ErrSyntax
      else if 2 ^ 64 \<le> n * 10 + digit c then Inl ErrRange
      else ParseUint_loop (n * 10 + digit c) cs)"

definition ParseUint :: "string \<Rightarrow> error + int" where
  "ParseUint s = (if s = [] then Inl ErrSyntax else ParseUint_loop 0 s)"

text \<open>\<open>strconv.ParseInt(s, 10, 64)\<close>: an optional sign, then \<open>ParseUint\<close>, then the
  range of \<open>int64\<close>.\<close>

definition ParseInt :: "string \<Rightarrow> error + int" where
  "ParseInt s =
     (case s of
        [] \<Rightarrow> Inl ErrSyntax
      | c # cs \<Rightarrow>
          let neg = (c = CHR ''-'');
              s1 = (if c = CHR ''+'' \<or> c = CHR ''-'' then cs else s)
          in case ParseUint s1 of
               Inl e \<Rightarrow> Inl e
             | Inr un \<Rightarrow>
                 if \<not> neg \<and> 2 ^ 63 \<le> un then Inl ErrRange
                 else if neg \<and> 2 ^ 63 < un then Inl ErrRange
                 else Inr (if neg then - un else un))"

text \<open>
  A \<open>time.Time\<close>, by the call that made it: \<open>Unix sec nsec\<close> is \<open>time.Unix(sec, nsec)\<close>,
  \<open>UTCDate y m d\<close> is midnight UTC of a calendar day, as \<open>time.Parse\<close> gives for the
  layout \<open>2006-01-02\<close>.
\<close>

datatype Time = Unix int int | UTCDate int int int

definition daysIn :: "int \<Rightarrow> int \<Rightarrow> int" where
  "daysIn month year =
     (if month = 2 then
        (if year mod 4 = 0 \<and> (year mod 100 \<noteq> 0 \<or> year mod 400 = 0) then 29 else 28)
      else if month = 4 \<or> month = 6 \<or> month = 9 \<or> month = 11 then 30
      else 31)"

text \<open>
  \<open>time.Parse("2006-01-02", value)\<close>: four digits, a hyphen, two digits, a hyphen, two
  digits and nothing more; the month from 1 to 12 and the day one of that month.
\<close>

definition Parse_date :: "string \<Rightarrow> error + Time" where
  "Parse_date v =
     (if length v = 10 \<and> isDigit (v ! 0) \<and> isDigit (v ! 1) \<and> isDigit (v ! 2)
         \<and> isDigit (v ! 3) \<and> v ! 4 = CHR ''-'' \<and> isDigit (v ! 5) \<and> isDigit (v ! 6)
         \<and> v ! 7 = CHR ''-'' \<and> isDigit (v ! 8) \<and> isDigit (v ! 9)
      then
        let year = digit (v ! 0) * 1000 + digit (v ! 1) * 100 + digit (v ! 2) * 10
                   + digit (v ! 3);
            month = digit (v ! 5) * 10 + digit (v ! 6);
            day = digit (v ! 8) * 10 + digit (v ! 9)
        in if month < 1 \<or> 12 < month then Inl TimeParseError
           else if day < 1 \<or> daysIn month year < day then Inl TimeParseError
           else Inr (UTCDate year month day)
      else Inl TimeParseError)"

section \<open>Slack timestamps\<close>

text \<open>\<open>parseSlackTimestamp\<close> of package \<open>indexer\<close>.\<close>

definition parseSlackTimestamp :: "string \<Rightarrow> error + Time" where
  "parseSlackTimestamp ts =
     (let parts = Split ts (CHR ''.'')
      in if length parts \<noteq> 2 then Inl InvalidTimestampFormat
         else case ParseInt (hd parts) of
                Inl err \<Rightarrow> Inl err
              | Inr seconds \<Rightarrow> Inr (Unix seconds 0))"

section \<open>Data model\<close>

text \<open>The structs of package \<open>models\<close>.\<close>

record User =
  User_ID :: string
  User_Name :: string
  User_RealName :: string
  User_DisplayName :: string
  User_IsBot :: bool
  User_Deleted :: bool

record Profile =
  Profile_RealName :: string
  Profile_DisplayName :: string

record UserJSON =
  UserJSON_ID :: string
  UserJSON_Name :: string
  UserJSON_Profile :: Profile
  UserJSON_IsBot :: bool
  UserJSON_Deleted :: bool

record Channel =
  Channel_ID :: string
  Channel_Name :: string
  Channel_Created :: int
  Channel_Creator :: string
  Channel_IsArchived :: bool

record Message =
  ID :: int
  UserID :: string
  Text :: string
  Type :: string
  Subtype :: string
  Timestamp :: string
  Date :: Time
  Filename :: string
  ThreadTS :: string
  ParentUserID :: string
  ReplyCount :: int
  ReplyUsersCount :: int
  LatestReply :: string
  UserName :: string
  UserRealName :: string

text \<open>
  \<open>SearchResult\<close> embeds \<open>Message\<close>; its own \<open>Filename\<close> field, which hides the embedded
  one, is \<open>Result_Filename\<close> here. \<open>Rank\<close> is a \<open>float64\<close> that only ever holds the
  constant \<open>0.0\<close> of the search query, an integer here.
\<close>

record SearchResult = Message +
  Rank :: int
  Snippet :: string
  Result_Filename :: string

section \<open>The store\<close>

text \<open>
  The tables that \<open>createTables\<close> declares, each a list of rows in insertion order.
  Columns are named after the aliases of the SQL text (\<open>u\<close>, \<open>m\<close>, \<open>fts\<close>); a column
  without \<open>NOT NULL\<close> that the program always writes from a Go string holds a string,
  and \<open>real_name\<close> keeps its \<open>NULL\<close> to show what \<open>COALESCE\<close> is for.
\<close>

record users_row =
  u_id :: string
  u_name :: string
  u_real_name :: "string option"
  u_display_name :: string
  u_is_bot :: bool
  u_deleted :: bool

record channels_row =
  c_id :: string
  c_name :: string
  c_created :: int
  c_creator :: string
  c_is_archived :: bool

record messages_row =
  m_id :: int
  m_user_id :: string
  m_text :: string
  m_type :: string
  m_subtype :: string
  m_timestamp :: string
  m_date :: Time
  m_filename :: string

record fts_row =
  fts_rowid :: int
  fts_text :: string
  fts_user_name :: string
  fts_user_real_name :: string
  fts_filename :: string

text \<open>
  The database behind a \<open>DB\<close> handle. \<open>sqlite_sequence\<close> is the largest id
  \<open>AUTOINCREMENT\<close> has given out. \<open>medium\<close> is the part of the surroundings that decides
  whether a write succeeds: the outcomes of the coming \<open>conn.Exec\<close> calls, in order,
  \<open>True\<close> for a call that fails; once the list is used up every call succeeds.
\<close>

record DB =
  users :: "users_row list"
  channels :: "channels_row list"
  messages :: "messages_row list"
  messages_fts :: "fts_row list"
  sqlite_sequence :: int
  medium :: "bool list"

text \<open>
  \<open>conn.Exec\<close> of one statement: the statement runs as a whole or not at all, and the
  call returns the error, if any.
\<close>

definition Exec :: "DB \<Rightarrow> (DB \<Rightarrow> DB) \<Rightarrow> error option \<times> DB" where
  "Exec d stmt =
     (case medium d of
        [] \<Rightarrow> (None, stmt d)
      | fails # rest \<Rightarrow>
          if fails then (Some ExecError, d\<lparr>medium := rest\<rparr>)
          else (None, stmt (d\<lparr>medium := rest\<rparr>)))"

text \<open>
  \<open>INSERT OR REPLACE\<close> into a table whose primary key is \<open>key\<close>: the rows with the key
  of the new row are deleted, then the new row is inserted.
\<close>

definition insert_or_replace :: "('r \<Rightarrow> string) \<Rightarrow> 'r \<Rightarrow> 'r list \<Rightarrow> 'r list" where
  "insert_or_replace key row table = filter (\<lambda>r. key r \<noteq> key row) table @ [row]"

definition COALESCE :: "string option \<Rightarrow> string \<Rightarrow> string" where
  "COALESCE x y = (case x of Some s \<Rightarrow> s | None \<Rightarrow> y)"

text \<open>The \<open>VALUES\<close> row that \<open>InsertUser\<close> binds from a \<open>User\<close>.\<close>

definition users_values :: "User \<Rightarrow> users_row" where
  "users_values user =
     \<lparr>u_id = User_ID user, u_name = User_Name user,
      u_real_name = Some (User_RealName user),
      u_display_name = User_DisplayName user,
      u_is_bot = User_IsBot user, u_deleted = User_Deleted user\<rparr>"

definition InsertUser :: "DB \<Rightarrow> User \<Rightarrow> error option \<times> DB" where
  "InsertUser d user =
     Exec d (\<lambda>d. d\<lparr>users := insert_or_replace u_id (users_values user) (users d)\<rparr>)"

text \<open>The \<open>VALUES\<close> row that \<open>InsertChannel\<close> binds from a \<open>Channel\<close>.\<close>

definition channels_values :: "Channel \<Rightarrow> channels_row" where
  "channels_values channel =
     \<lparr>c_id = Channel_ID channel, c_name = Channel_Name channel,
      c_created = Channel_Created channel, c_creator = Channel_Creator channel,
      c_is_archived = Channel_IsArchived channel\<rparr>"

definition InsertChannel :: "DB \<Rightarrow> Channel \<Rightarrow> error option \<times> DB" where
  "InsertChannel d channel =
     Exec d (\<lambda>d. d\<lparr>channels :=
       insert_or_replace c_id (channels_values channel) (channels d)\<rparr>)"

text \<open>
  The trigger \<open>messages_fts_insert\<close>: an \<open>INSERT ... SELECT ... FROM users u WHERE u.id =
  new.user_id\<close>, so one full-text row for every user row with the author's id.
\<close>

definition messages_fts_insert :: "messages_row \<Rightarrow> DB \<Rightarrow> DB" where
  "messages_fts_insert new d =
     d\<lparr>messages_fts := messages_fts d @
        map (\<lambda>u. \<lparr>fts_rowid = m_id new, fts_text = m_text new,
                  fts_user_name = COALESCE (Some (u_name u)) '''',
                  fts_user_real_name = COALESCE (u_real_name u) '''',
                  fts_filename = m_filename new\<rparr>)
            (filter (\<lambda>u. u_id u = m_user_id new) (users d))\<rparr>"

text \<open>
  \<open>InsertMessage\<close>: the new row takes the id after the largest one in use or given out
  before, and the trigger runs in the same statement. The connection is opened without
  the foreign-key pragma, so SQLite does not enforce the reference to \<open>users\<close>.
\<close>

definition next_id :: "DB \<Rightarrow> int" where
  "next_id d = fold max (map m_id (messages d)) (sqlite_sequence d) + 1"

definition InsertMessage :: "DB \<Rightarrow> Message \<Rightarrow> error option \<times> DB" where
  "InsertMessage d message =
     Exec d (\<lambda>d.
       let new = \<lparr>m_id = next_id d, m_user_id = UserID message, m_text = Text message,
                  m_type = Type message, m_subtype = Subtype message,
                  m_timestamp = Timestamp message, m_date = Date message,
                  m_filename = Filename message\<rparr>
       in messages_fts_insert new
            (d\<lparr>messages := messages d @ [new], sqlite_sequence := m_id new\<rparr>))"

section \<open>JSON input\<close>

text \<open>
  A JSON value as \<open>encoding/json\<close> reads it. An object keeps its members in the order of
  the text; a number is \<open>JNumber m e\<close>, the value \<open>m\<close> times ten to the power \<open>e\<close>.
\<close>

datatype json =
    JNull
  | JBool bool
  | JNumber int int
  | JString string
  | JArray "json list"
  | JObject "(string \<times> json) list"

text \<open>
  Whether \<open>strconv.ParseFloat\<close> reads a number as a \<open>float64\<close> without a range error:
  its size is below \<open>2^1024 - 2^970\<close>, from where on rounding gives infinity.
\<close>

definition float64_range :: "int \<Rightarrow> int \<Rightarrow> bool" where
  "float64_range m e =
     (if 0 \<le> e then \<bar>m\<bar> * 10 ^ nat e < 2 ^ 1024 - 2 ^ 970
      else \<bar>m\<bar> < (2 ^ 1024 - 2 ^ 970) * 10 ^ nat (- e))"

text \<open>Every number of a value, at any depth, is in the range of \<open>float64\<close>.\<close>

fun numbers_fit :: "json \<Rightarrow> bool" where
  "numbers_fit (JNumber m e) = float64_range m e"
| "numbers_fit (JArray xs) = list_all numbers_fit xs"
| "numbers_fit (JObject kvs) = list_all (\<lambda>kv. numbers_fit (snd kv)) kvs"
| "numbers_fit JNull = True"
| "numbers_fit (JBool b) = True"
| "numbers_fit (JString s) = True"

text \<open>
  What reading a file and decoding it gives: \<open>os.ReadFile\<close> fails, or
  \<open>json.Unmarshal\<close> rejects the bytes or the shape of the value, or there is a value.
\<close>

datatype 'a file_result = ReadFails | UnmarshalFails | Decoded 'a

text \<open>
  \<open>json.Unmarshal\<close> into a \<open>[]json.RawMessage\<close>: the elements of an array, none for
  \<open>null\<close>, an error for any other value.
\<close>

definition Unmarshal_raw_list :: "json \<Rightarrow> error + json list" where
  "Unmarshal_raw_list j =
     (case j of JArray xs \<Rightarrow> Inr xs | JNull \<Rightarrow> Inr [] | _ \<Rightarrow> Inl UnmarshalError)"

text \<open>
  \<open>json.Unmarshal\<close> into a \<open>map[string]interface{}\<close>: the members of an object, where
  the last of several members with one key wins; the nil map for \<open>null\<close>; an error for
  any other value, and for an object with a number anywhere in it that does not fit a
  \<open>float64\<close>.
\<close>

definition Unmarshal_map :: "json \<Rightarrow> error + (string \<rightharpoonup> json)" where
  "Unmarshal_map j =
     (case j of
        JObject kvs \<Rightarrow>
          if numbers_fit (JObject kvs) then Inr (map_of (rev kvs)) else Inl UnmarshalError
      | JNull \<Rightarrow> Inr Map.empty
      | _ \<Rightarrow> Inl UnmarshalError)"

text \<open>The type assertion \<open>v.(string)\<close> on a map entry: the string, if it is one.\<close>

definition as_string :: "json option \<Rightarrow> string option" where
  "as_string v = (case v of Some (JString s) \<Rightarrow> Some s | _ \<Rightarrow> None)"

text \<open>\<open>s, _ := v.(string)\<close>: the empty string when the assertion fails.\<close>

definition string_or_zero :: "json option \<Rightarrow> string" where
  "string_or_zero v = (case as_string v of Some s \<Rightarrow> s | None \<Rightarrow> '''')"

section \<open>The indexer\<close>

text \<open>
  The \<open>Indexer\<close> struct. \<open>warnings\<close> collects what the program prints for a file it
  could not process: the file name and the error. Its other progress output is not
  modelled.
\<close>

record Indexer =
  db :: DB
  sourceDir :: string
  channelName :: string
  totalFiles :: int
  processedFiles :: int
  warnings :: "(string \<times> error) list"

text \<open>The \<open>User\<close> that \<open>loadUsers\<close> builds from an entry of \<open>users.json\<close>.\<close>

definition toUser :: "UserJSON \<Rightarrow> User" where
  "toUser userJSON =
     \<lparr>User_ID = UserJSON_ID userJSON,
      User_Name = UserJSON_Name userJSON,
      User_RealName = Profile_RealName (UserJSON_Profile userJSON),
      User_DisplayName = Profile_DisplayName (UserJSON_Profile userJSON),
      User_IsBot = UserJSON_IsBot userJSON,
      User_Deleted = UserJSON_Deleted userJSON\<rparr>"

text \<open>The loop of \<open>loadUsers\<close> over the decoded entries of \<open>users.json\<close>.\<close>

fun loadUsers_loop :: "Indexer \<Rightarrow> UserJSON list \<Rightarrow> error option \<times> Indexer" where
  "loadUsers_loop idx [] = (None, idx)"
| "loadUsers_loop idx (userJSON # rest) =
     (let user = toUser userJSON
      in case InsertUser (db idx) user of
           (Some err, d) \<Rightarrow>
             (Some (Wrapped (''failed to insert user '' @ User_ID user) err), idx\<lparr>db := d\<rparr>)
         | (None, d) \<Rightarrow> loadUsers_loop (idx\<lparr>db := d\<rparr>) rest)"

text \<open>\<open>loadUsers\<close>; the argument is what reading and decoding \<open>users.json\<close> gives.\<close>

definition loadUsers :: "Indexer \<Rightarrow> UserJSON list file_result \<Rightarrow> error option \<times> Indexer" where
  "loadUsers idx usersFile =
     (case usersFile of
        ReadFails \<Rightarrow> (Some (Wrapped ''failed to read users.json'' ReadFileError), idx)
      | UnmarshalFails \<Rightarrow> (Some (Wrapped ''failed to parse users.json'' UnmarshalError), idx)
      | Decoded usersJSON \<Rightarrow> loadUsers_loop idx usersJSON)"

fun loadChannels_loop :: "Indexer \<Rightarrow> Channel list \<Rightarrow> error option \<times> Indexer" where
  "loadChannels_loop idx [] = (None, idx)"
| "loadChannels_loop idx (channel # rest) =
     (case InsertChannel (db idx) channel of
        (Some err, d) \<Rightarrow>
          (Some (Wrapped (''failed to insert channel '' @ Channel_ID channel) err),
           idx\<lparr>db := d\<rparr>)
      | (None, d) \<Rightarrow> loadChannels_loop (idx\<lparr>db := d\<rparr>) rest)"

text \<open>\<open>loadChannels\<close>; the argument is what reading and decoding \<open>channels.json\<close> gives.\<close>

definition loadChannels :: "Indexer \<Rightarrow> Channel list file_result \<Rightarrow> error option \<times> Indexer" where
  "loadChannels idx channelsFile =
     (case channelsFile of
        ReadFails \<Rightarrow> (Some (Wrapped ''failed to read channels.json'' ReadFileError), idx)
      | UnmarshalFails \<Rightarrow>
          (Some (Wrapped ''failed to parse channels.json'' UnmarshalError), idx)
      | Decoded chans \<Rightarrow> loadChannels_loop idx chans)"

text \<open>
  The body of the record loop of \<open>processMessageFile\<close> up to the insert: \<open>None\<close> where
  the loop says \<open>continue\<close>, otherwise the \<open>Message\<close> it builds.
\<close>

definition acceptRecord :: "Time \<Rightarrow> string \<Rightarrow> json \<Rightarrow> Message option" where
  "acceptRecord date filename rawMsg =
     (case Unmarshal_map rawMsg of
        Inl err \<Rightarrow> None
      | Inr msgMap \<Rightarrow>
          if as_string (msgMap ''subtype'') = Some ''bot_message'' then None
          else case as_string (msgMap ''user'') of
                 None \<Rightarrow> None
               | Some userID \<Rightarrow>
                   (case as_string (msgMap ''text'') of
                      None \<Rightarrow> None
                    | Some text \<Rightarrow>
                        if TrimSpace text = '''' then None
                        else
                          let timestamp = string_or_zero (msgMap ''ts'');
                              msgType = string_or_zero (msgMap ''type'');
                              subtype = string_or_zero (msgMap ''subtype'');
                              msgTime =
                                (if timestamp \<noteq> '''' then
                                   (case parseSlackTimestamp timestamp of
                                      Inr ts \<Rightarrow> ts
                                    | Inl err \<Rightarrow> date)
                                 else date)
                          in Some \<lparr>ID = 0, UserID = userID, Text = text, Type = msgType,
                                   Subtype = subtype, Timestamp = timestamp, Date = msgTime,
                                   Filename = filename, ThreadTS = '''', ParentUserID = '''',
                                   ReplyCount = 0, ReplyUsersCount = 0, LatestReply = '''',
                                   UserName = '''', UserRealName = ''''\<rparr>))"

text \<open>The record loop of \<open>processMessageFile\<close>.\<close>

fun processRecords :: "DB \<Rightarrow> Time \<Rightarrow> string \<Rightarrow> json list \<Rightarrow> error option \<times> DB" where
  "processRecords d date filename [] = (None, d)"
| "processRecords d date filename (rawMsg # rest) =
     (case acceptRecord date filename rawMsg of
        None \<Rightarrow> processRecords d date filename rest
      | Some message \<Rightarrow>
          (case InsertMessage d message of
             (Some err, d1) \<Rightarrow> (Some (Wrapped ''failed to insert message'' err), d1)
           | (None, d1) \<Rightarrow> processRecords d1 date filename rest))"

text \<open>
  \<open>processMessageFile\<close>; the first argument stands for the path: it is what reading the
  file at that path and decoding its bytes as JSON gives.
\<close>

definition processMessageFile :: "Indexer \<Rightarrow> json file_result \<Rightarrow> string \<Rightarrow> error option \<times> Indexer" where
  "processMessageFile idx file filename =
     (case file of
        ReadFails \<Rightarrow> (Some (Wrapped ''failed to read file'' ReadFileError), idx)
      | UnmarshalFails \<Rightarrow> (Some (Wrapped ''failed to parse JSON'' UnmarshalError), idx)
      | Decoded j \<Rightarrow>
          (case Unmarshal_raw_list j of
             Inl err \<Rightarrow> (Some (Wrapped ''failed to parse JSON'' err), idx)
           | Inr msgs \<Rightarrow>
               (case Parse_date (TrimSuffix filename ''.json'') of
                  Inl err \<Rightarrow>
                    (Some (Wrapped (''failed to parse date from filename '' @ filename) err),
                     idx)
                | Inr date \<Rightarrow>
                    (case processRecords (db idx) date filename msgs of
                       (err, d) \<Rightarrow> (err, idx\<lparr>db := d\<rparr>)))))"

text \<open>
  One call of the \<open>filepath.WalkDir\<close> callback: the path, whether it is a directory, the
  error the walk hands over, and what reading and decoding the file at the path gives.
  A walk is the list of these calls, in the walk's order.
\<close>

record DirEntry =
  entry_path :: string
  entry_IsDir :: bool
  entry_err :: "error option"
  entry_file :: "json file_result"

text \<open>\<open>filepath.Base\<close> (Unix): the last element of a path.\<close>

definition Base :: "string \<Rightarrow> string" where
  "Base path =
     (if path = [] then ''.''
      else
        let stripped = rev (dropWhile (\<lambda>c. c = CHR ''/'') (rev path));
            element = rev (takeWhile (\<lambda>c. c \<noteq> CHR ''/'') (rev stripped))
        in if element = [] then ''/'' else element)"

text \<open>The first walk of \<open>processMessageFiles\<close>, which counts the files.\<close>

fun countFiles :: "Indexer \<Rightarrow> DirEntry list \<Rightarrow> error option \<times> Indexer" where
  "countFiles idx [] = (None, idx)"
| "countFiles idx (e # rest) =
     (case entry_err e of
        Some err \<Rightarrow> (Some err, idx)
      | None \<Rightarrow>
          countFiles
            (if \<not> entry_IsDir e \<and> HasSuffix (entry_path e) ''.json''
             then idx\<lparr>totalFiles := totalFiles idx + 1\<rparr> else idx)
            rest)"

text \<open>The second walk, which processes each JSON file.\<close>

fun processFiles :: "Indexer \<Rightarrow> DirEntry list \<Rightarrow> error option \<times> Indexer" where
  "processFiles idx [] = (None, idx)"
| "processFiles idx (e # rest) =
     (case entry_err e of
        Some err \<Rightarrow> (Some err, idx)
      | None \<Rightarrow>
          if entry_IsDir e \<or> \<not> HasSuffix (entry_path e) ''.json''
          then processFiles idx rest
          else
            let filename = Base (entry_path e)
            in case processMessageFile idx (entry_file e) filename of
                 (Some err, idx1) \<Rightarrow>
                   processFiles (idx1\<lparr>warnings := warnings idx1 @ [(filename, err)]\<rparr>) rest
               | (None, idx1) \<Rightarrow>
                   processFiles (idx1\<lparr>processedFiles := processedFiles idx1 + 1\<rparr>) rest)"

text \<open>\<open>processMessageFiles\<close>; the second argument is the walk of the channel directory.\<close>

definition processMessageFiles :: "Indexer \<Rightarrow> DirEntry list \<Rightarrow> error option \<times> Indexer" where
  "processMessageFiles idx walk =
     (case countFiles idx walk of
        (Some err, idx1) \<Rightarrow> (Some (Wrapped ''failed to count files'' err), idx1)
      | (None, idx1) \<Rightarrow> processFiles idx1 walk)"

section \<open>The searcher\<close>

text \<open>
  SQLite's full-text engine and its Go driver, which the program uses and does not
  contain: \<open>fts_match\<close> compiles a \<open>MATCH\<close> expression into a test on full-text rows
  (\<open>None\<close> when the query cannot be run), \<open>fts_snippet\<close> is the \<open>snippet\<close> function.
  The driver writes a \<open>time.Time\<close> as text and parses the text back when a row is
  scanned; \<open>reads_back\<close> tells whether the text of a time parses back, which it does not
  when the year has more than four digits.
\<close>

record Engine =
  fts_match :: "string \<Rightarrow> (fts_row \<Rightarrow> bool) option"
  fts_snippet :: "string \<Rightarrow> fts_row \<Rightarrow> string"
  reads_back :: "Time \<Rightarrow> bool"

text \<open>\<open>LIMIT n\<close>: no limit when \<open>n\<close> is negative.\<close>

definition sql_limit :: "int \<Rightarrow> 'a list \<Rightarrow> 'a list" where
  "sql_limit n rows = (if n < 0 then rows else take (nat n) rows)"

text \<open>\<open>LEFT JOIN users u ON u.id = m.user_id\<close>: the user rows of the author, or one
  row of \<open>NULL\<close>s when there is none.\<close>

definition left_join_users :: "DB \<Rightarrow> messages_row \<Rightarrow> users_row option list" where
  "left_join_users d m =
     (case filter (\<lambda>u. u_id u = m_user_id m) (users d) of
        [] \<Rightarrow> [None]
      | us \<Rightarrow> map Some us)"

text \<open>
  One row of the query of \<open>SearchMessages\<close>, scanned into a \<open>SearchResult\<close>. The
  \<open>filename\<close> column goes to the result's own field; the thread fields are not selected
  and keep their zero values. \<open>Rank\<close> is the constant \<open>0.0\<close> of the query. A date whose
  text does not parse back is scanned as the zero \<open>time.Time\<close>, midnight UTC of the first
  day of the year 1.
\<close>

definition scan_result :: "Engine \<Rightarrow> string \<Rightarrow> fts_row \<Rightarrow> messages_row \<Rightarrow> users_row option \<Rightarrow> SearchResult" where
  "scan_result eng query fts m u =
     \<lparr>ID = m_id m, UserID = m_user_id m, Text = m_text m, Type = m_type m,
      Subtype = m_subtype m, Timestamp = m_timestamp m,
      Date = (if reads_back eng (m_date m) then m_date m else UTCDate 1 1 1),
      Filename = '''', ThreadTS = '''', ParentUserID = '''', ReplyCount = 0,
      ReplyUsersCount = 0, LatestReply = '''',
      UserName = COALESCE (map_option u_name u) '''',
      UserRealName = COALESCE (Option.bind u u_real_name) '''',
      Rank = 0, Snippet = fts_snippet eng query fts, Result_Filename = m_filename m\<rparr>"

definition SearchMessages :: "Engine \<Rightarrow> DB \<Rightarrow> string \<Rightarrow> int \<Rightarrow> error + SearchResult list" where
  "SearchMessages eng d query limit =
     (case fts_match eng query of
        None \<Rightarrow> Inl (Wrapped ''search query failed'' QueryError)
      | Some matches \<Rightarrow>
          Inr (sql_limit limit
                 [scan_result eng query fts m u.
                    fts \<leftarrow> filter matches (messages_fts d),
                    m \<leftarrow> filter (\<lambda>m. m_id m = fts_rowid fts) (messages d),
                    u \<leftarrow> left_join_users d m]))"

text \<open>\<open>Search\<close> of package \<open>searcher\<close>.\<close>

definition Search :: "Engine \<Rightarrow> DB \<Rightarrow> string \<Rightarrow> int \<Rightarrow> error + SearchResult list" where
  "Search eng d query limit =
     (let limit = (if limit \<le> 0 then 10 else limit)
      in SearchMessages eng d query limit)"

section \<open>Thread context\<close>

record ThreadedSearchResult =
  OriginalResult :: SearchResult
  ThreadMessages :: "Message list"
  IsThreaded :: bool

text \<open>
  The thread root that the loop of \<open>GenerateHTMLOutput\<close> works out for a result; the
  empty string is the zero value of the variable \<open>threadTS\<close>.
\<close>

definition threadRoot :: "SearchResult \<Rightarrow> string" where
  "threadRoot result =
     (if ThreadTS result \<noteq> '''' then ThreadTS result
      else if ReplyCount result > 0 then Timestamp result
      else '''')"

text \<open>
  The body of that loop. \<open>GetThreadMessages\<close> is the method of the database handle the
  searcher calls; it is a parameter here.
\<close>

definition threadContext :: "(string \<Rightarrow> error + Message list) \<Rightarrow> SearchResult \<Rightarrow> ThreadedSearchResult" where
  "threadContext GetThreadMessages result =
     (let threadedResult =
            \<lparr>OriginalResult = result, ThreadMessages = [], IsThreaded = False\<rparr>;
          threadTS = threadRoot result
      in if threadTS \<noteq> '''' then
           (case GetThreadMessages threadTS of
              Inr threadMessages \<Rightarrow>
                if length threadMessages > 1
                then threadedResult\<lparr>ThreadMessages := threadMessages, IsThreaded := True\<rparr>
                else threadedResult
            | Inl err \<Rightarrow> threadedResult)
         else threadedResult)"

text \<open>The loop of \<open>GenerateHTMLOutput\<close> that collects the thread context of the results.\<close>

definition collectThreadContext :: "(string \<Rightarrow> error + Message list) \<Rightarrow> SearchResult list \<Rightarrow> ThreadedSearchResult list" where
  "collectThreadContext GetThreadMessages results =
     map (threadContext GetThreadMessages) results"

section \<open>Example inputs\<close>

definition ex_alice :: UserJSON where
  "ex_alice =
     \<lparr>UserJSON_ID = ''U100'', UserJSON_Name = ''alice'',
      UserJSON_Profile = \<lparr>Profile_RealName = ''Alice Liddell'', Profile_DisplayName = ''ali''\<rparr>,
      UserJSON_IsBot = False, UserJSON_Deleted = False\<rparr>"

definition ex_bot :: UserJSON where
  "ex_bot =
     \<lparr>UserJSON_ID = ''B200'', UserJSON_Name = ''deploybot'',
      UserJSON_Profile = \<lparr>Profile_RealName = ''Deploy Bot'', Profile_DisplayName = ''''\<rparr>,
      UserJSON_IsBot = True, UserJSON_Deleted = False\<rparr>"

definition ex_channel :: Channel where
  "ex_channel =
     \<lparr>Channel_ID = ''C300'', Channel_Name = ''sig-auth'', Channel_Created = 1565000000,
      Channel_Creator = ''U100'', Channel_IsArchived = False\<rparr>"

text \<open>The database after \<open>createTables\<close> and the load of the two users and the channel.\<close>

definition ex_db :: DB where
  "ex_db =
     \<lparr>users = [users_values (toUser ex_alice), users_values (toUser ex_bot)],
      channels = [channels_values ex_channel],
      messages = [], messages_fts = [], sqlite_sequence = 0, medium = []\<rparr>"

definition ex_idx :: Indexer where
  "ex_idx =
     \<lparr>db = ex_db, sourceDir = ''source-data'', channelName = ''sig-auth'',
      totalFiles = 0, processedFiles = 0, warnings = []\<rparr>"

text \<open>The same indexer on a store whose next write fails.\<close>

definition ex_idx_faulty :: Indexer where
  "ex_idx_faulty = ex_idx\<lparr>db := ex_db\<lparr>medium := [True]\<rparr>\<rparr>"

definition ex_record :: json where
  "ex_record =
     JObject [(''type'', JString ''message''), (''user'', JString ''U100''),
              (''text'', JString ''rotate the certs''),
              (''ts'', JString ''1565852586.087600'')]"

definition ex_record_next_day :: json where
  "ex_record_next_day =
     JObject [(''type'', JString ''message''), (''user'', JString ''U100''),
              (''text'', JString ''certs rotated''),
              (''ts'', JString ''1565938986.000100'')]"

definition ex_record_bad_ts :: json where
  "ex_record_bad_ts =
     JObject [(''type'', JString ''message''), (''user'', JString ''U100''),
              (''text'', JString ''no clock here''), (''ts'', JString ''yesterday'')]"

definition ex_record_bot :: json where
  "ex_record_bot =
     JObject [(''type'', JString ''message''), (''subtype'', JString ''bot_message''),
              (''user'', JString ''B200''), (''text'', JString ''deployed''),
              (''ts'', JString ''1565852600.000300'')]"

definition ex_record_blank :: json where
  "ex_record_blank =
     JObject [(''type'', JString ''message''), (''user'', JString ''U100''),
              (''text'', JString [CHR 0x20, CHR 0x09, CHR 0xC2, CHR 0xA0]),
              (''ts'', JString ''1565852610.000400'')]"

text \<open>A message whose author \<open>U404\<close> is not in \<open>users.json\<close>.\<close>

definition ex_message_unknown_author :: Message where
  "ex_message_unknown_author =
     \<lparr>ID = 0, UserID = ''U404'', Text = ''hello from a guest'', Type = ''message'',
      Subtype = '''', Timestamp = ''1565852590.000200'', Date = Unix 1565852590 0,
      Filename = ''2019-08-15.json'', ThreadTS = '''', ParentUserID = '''',
      ReplyCount = 0, ReplyUsersCount = 0, LatestReply = '''',
      UserName = '''', UserRealName = ''''\<rparr>"

definition ex_message_alice :: Message where
  "ex_message_alice = ex_message_unknown_author\<lparr>UserID := ''U100''\<rparr>"

text \<open>The walk of a channel directory with two day files.\<close>

definition ex_walk :: "DirEntry list" where
  "ex_walk =
     [\<lparr>entry_path = ''source-data/sig-auth'', entry_IsDir = True, entry_err = None,
       entry_file = ReadFails\<rparr>,
      \<lparr>entry_path = ''source-data/sig-auth/2019-08-15.json'', entry_IsDir = False,
       entry_err = None, entry_file = Decoded (JArray [ex_record])\<rparr>,
      \<lparr>entry_path = ''source-data/sig-auth/2019-08-16.json'', entry_IsDir = False,
       entry_err = None, entry_file = Decoded (JArray [ex_record_next_day])\<rparr>]"

text \<open>What the record loop builds from \<open>ex_record\<close> in the file \<open>2019-08-15.json\<close>.\<close>

definition ex_message :: Message where
  "ex_message =
     \<lparr>ID = 0, UserID = ''U100'', Text = ''rotate the certs'', Type = ''message'',
      Subtype = '''', Timestamp = ''1565852586.087600'', Date = Unix 1565852586 0,
      Filename = ''2019-08-15.json'', ThreadTS = '''', ParentUserID = '''',
      ReplyCount = 0, ReplyUsersCount = 0, LatestReply = '''',
      UserName = '''', UserRealName = ''''\<rparr>"

text \<open>The store after the two day files of \<open>ex_walk\<close> have been indexed.\<close>

definition ex_db_indexed :: DB where
  "ex_db_indexed = db (snd (processMessageFiles ex_idx ex_walk))"

text \<open>
  A stand-in for the full-text engine and the driver: it rejects the empty query, matches
  a row when the query is one of the words of its text, marks the query as the snippet,
  and reads back the times of the years 0 to 9999 in UTC.
\<close>

definition ex_engine :: Engine where
  "ex_engine =
     \<lparr>fts_match = (\<lambda>q. if q = '''' then None
                        else Some (\<lambda>row. q \<in> set (Split (fts_text row) (CHR '' '')))),
      fts_snippet = (\<lambda>q row. ''<mark>'' @ q @ ''</mark>''),
      reads_back = (\<lambda>t. case t of
                            Unix sec nsec \<Rightarrow> - 62167219200 \<le> sec \<and> sec < 253402300800
                          | UTCDate y m d \<Rightarrow> 0 \<le> y \<and> y \<le> 9999)\<rparr>"

text \<open>A search result as \<open>SearchMessages\<close> scans it: no thread fields set.\<close>

definition ex_result :: SearchResult where
  "ex_result =
     \<lparr>ID = 1, UserID = ''U100'', Text = ''rotate the certs'', Type = ''message'',
      Subtype = '''', Timestamp = ''1565852586.087600'', Date = Unix 1565852586 0,
      Filename = '''', ThreadTS = '''', ParentUserID = '''',
      ReplyCount = 0, ReplyUsersCount = 0, LatestReply = '''',
      UserName = ''alice'', UserRealName = ''Alice Liddell'',
      Rank = 0, Snippet = ''<mark>certs</mark>'', Result_Filename = ''2019-08-15.json''\<rparr>"

text \<open>
  A stand-in for \<open>GetThreadMessages\<close>: one thread of two messages, one root that only
  finds itself, and a failure for every other token.
\<close>

definition ex_lookup :: "string \<Rightarrow> error + Message list" where
  "ex_lookup threadTS =
     (if threadTS = ''1565852000.000100'' then Inr [ex_message_alice, ex_message]
      else if threadTS = ''1565852586.087600'' then Inr [ex_message]
      else Inl QueryError)"

text \<open>The store after \<open>ex_record\<close> of \<open>2019-08-15.json\<close> has been appended.\<close>

definition ex_db_one_message :: DB where
  "ex_db_one_message =
     ex_db\<lparr>messages :=
             [\<lparr>m_id = 1, m_user_id = ''U100'', m_text = ''rotate the certs'',
               m_type = ''message'', m_subtype = '''',
               m_timestamp = ''1565852586.087600'', m_date = Unix 1565852586 0,
               m_filename = ''2019-08-15.json''\<rparr>],
           messages_fts :=
             [\<lparr>fts_rowid = 1, fts_text = ''rotate the certs'', fts_user_name = ''alice'',
               fts_user_real_name = ''Alice Liddell'', fts_filename = ''2019-08-15.json''\<rparr>],
           sqlite_sequence := 1\<rparr>"

text \<open>An indexer on a store whose first write succeeds and whose second write fails.\<close>

definition ex_idx_late_fault :: Indexer where
  "ex_idx_late_fault = ex_idx\<lparr>db := ex_db\<lparr>medium := [False, True]\<rparr>\<rparr>"

text \<open>A walk whose first day file has three records and whose second has one.\<close>

definition ex_walk_three :: "DirEntry list" where
  "ex_walk_three =
     [\<lparr>entry_path = ''source-data/sig-auth'', entry_IsDir = True, entry_err = None,
       entry_file = ReadFails\<rparr>,
      \<lparr>entry_path = ''source-data/sig-auth/2019-08-15.json'', entry_IsDir = False,
       entry_err = None,
       entry_file = Decoded (JArray [ex_record, ex_record_next_day, ex_record_bad_ts])\<rparr>,
      \<lparr>entry_path = ''source-data/sig-auth/2019-08-16.json'', entry_IsDir = False,
       entry_err = None, entry_file = Decoded (JArray [ex_record_next_day])\<rparr>]"

section \<open>Properties\<close>

subsection \<open>Sanitizing\<close>

lemma Replace_length: "length (Replace r s) = length s"
  by (simp add: Replace_def)

text \<open>
  C8. The sanitizing of a channel name is a function of the name alone, and the copy in
  package \<open>database\<close> and the copy in package \<open>searcher\<close> give the same output for every
  name: each of them maps every disallowed byte to the underscore and leaves every other
  byte as it is.
\<close>

theorem sanitizeFilename_copies_agree:
  "database_sanitizeFilename name = searcher_sanitizeFilename name
   \<and> searcher_sanitizeFilename name = map (\<lambda>c. if c \<in> disallowed then CHR ''_'' else c) name"
  by (simp add: database_sanitizeFilename_def searcher_sanitizeFilename_def Replace_def
      disallowed_def)

subsection \<open>Database existence check\<close>

text \<open>
  C9. Whenever the working directory can be determined, \<open>ValidateDatabaseExists\<close>
  returns true for every channel name and every set of existing files, also when no
  database file exists: \<open>fileExists\<close> only asks whether an absolute path can be formed.
\<close>

theorem ValidateDatabaseExists_always_true:
  "cwd env = Some wd \<Longrightarrow> ValidateDatabaseExists (env\<lparr>files := fs\<rparr>) name"
  by (simp add: ValidateDatabaseExists_def fileExists_def Abs_err_def Join_def IsAbs_def)

theorem ValidateDatabaseExists_always_true_witness:
  "cwd env_no_databases = Some ''/home/user/k8s-slack-searcher''
   \<and> ValidateDatabaseExists (env_no_databases\<lparr>files := []\<rparr>) ''sig-auth''"
proof -
  have h: "cwd env_no_databases = Some ''/home/user/k8s-slack-searcher''"
    by (simp add: env_no_databases_def)
  show ?thesis
    using h ValidateDatabaseExists_always_true [OF h, of "[]" "''sig-auth''"] by simp
qed

subsection \<open>Timestamp parsing\<close>

lemma Split_length: "length (Split s sep) = Suc (length (filter (\<lambda>c. c = sep) s))"
  by (induction s) (auto split: list.splits)

lemma Split_no_sep: "sep \<notin> set a \<Longrightarrow> Split a sep = [a]"
  by (induction a) (auto split: list.splits)

lemma Split_one_sep:
  "sep \<notin> set a \<Longrightarrow> sep \<notin> set b \<Longrightarrow> Split (a @ sep # b) sep = [a, b]"
  by (induction a) (auto simp: Split_no_sep split: list.splits)

lemma ParseInt_1565852586: "ParseInt ''1565852586'' = Inr 1565852586"
  by (simp add: ParseInt_def ParseUint_def isDigit_def digit_def)

text \<open>
  C10. \<open>parseSlackTimestamp\<close> ignores the fraction: two tokens with the same seconds part
  and any two fractions parse to the same result, which is the error of parsing the
  seconds as a 64-bit integer or else \<open>time.Unix(seconds, 0)\<close>. A token in which the
  number of dots is not one fails with the format error.
\<close>

theorem parseSlackTimestamp_discards_fraction:
  "(CHR ''.'' \<notin> set secs \<and> CHR ''.'' \<notin> set frac1 \<and> CHR ''.'' \<notin> set frac2 \<longrightarrow>
      parseSlackTimestamp (secs @ ''.'' @ frac1) = parseSlackTimestamp (secs @ ''.'' @ frac2)
      \<and> parseSlackTimestamp (secs @ ''.'' @ frac1)
          = (case ParseInt secs of Inl err \<Rightarrow> Inl err | Inr seconds \<Rightarrow> Inr (Unix seconds 0)))
   \<and> (length (filter (\<lambda>c. c = CHR ''.'') ts) \<noteq> 1 \<longrightarrow>
        parseSlackTimestamp ts = Inl InvalidTimestampFormat)"
  by (simp add: parseSlackTimestamp_def Split_one_sep Split_length)

theorem parseSlackTimestamp_discards_fraction_witness:
  "parseSlackTimestamp ''1565852586.087600'' = parseSlackTimestamp ''1565852586.999999''
   \<and> parseSlackTimestamp ''1565852586.087600'' = Inr (Unix 1565852586 0)
   \<and> parseSlackTimestamp ''1565852586'' = Inl InvalidTimestampFormat"
  using parseSlackTimestamp_discards_fraction
          [of "''1565852586''" "''087600''" "''999999''" "''1565852586''"]
  by (auto simp: ParseInt_1565852586)

subsection \<open>Writes and upserts\<close>

lemma Exec_no_faults: "medium d = [] \<Longrightarrow> Exec d stmt = (None, stmt d)"
  by (simp add: Exec_def)

lemma fold_insert_or_replace_split:
  "fold (insert_or_replace key) rows table
     = filter (\<lambda>r. key r \<notin> key ` set rows) table @ fold (insert_or_replace key) rows []"
proof (induction rows arbitrary: table)
  case Nil
  show ?case by simp
next
  case (Cons x xs)
  have a: "fold (insert_or_replace key) (x # xs) table
        = filter (\<lambda>r. key r \<notin> key ` set xs) (insert_or_replace key x table)
          @ fold (insert_or_replace key) xs []"
    using Cons.IH [of "insert_or_replace key x table"] by simp
  have b: "fold (insert_or_replace key) (x # xs) []
        = filter (\<lambda>r. key r \<notin> key ` set xs) [x] @ fold (insert_or_replace key) xs []"
  proof -
    have "fold (insert_or_replace key) (x # xs) [] = fold (insert_or_replace key) xs [x]"
      by (simp add: insert_or_replace_def)
    then show ?thesis using Cons.IH [of "[x]"] by simp
  qed
  have c: "filter (\<lambda>r. key r \<notin> key ` set xs) (filter (\<lambda>r. key r \<noteq> key x) table)
        = filter (\<lambda>r. key r \<notin> key ` set (x # xs)) table"
    by (induction table) auto
  show ?case
    unfolding a b by (simp add: insert_or_replace_def c)
qed

lemma fold_insert_or_replace_keys:
  "key ` set (fold (insert_or_replace key) rows table) \<subseteq> key ` set table \<union> key ` set rows"
proof (induction rows arbitrary: table)
  case Nil
  show ?case by simp
next
  case (Cons x xs)
  have "key ` set (insert_or_replace key x table) \<subseteq> key ` set table \<union> {key x}"
    by (auto simp: insert_or_replace_def)
  with Cons.IH [of "insert_or_replace key x table"] show ?case
    by simp blast
qed

lemma fold_insert_or_replace_idem:
  "fold (insert_or_replace key) rows (fold (insert_or_replace key) rows table)
     = fold (insert_or_replace key) rows table"
proof -
  let ?F = "fold (insert_or_replace key) rows"
  have "key ` set (?F []) \<subseteq> key ` set rows"
    using fold_insert_or_replace_keys [of key rows "[]"] by simp
  then have e: "filter (\<lambda>r. key r \<notin> key ` set rows) (?F []) = []"
    by (auto simp: filter_empty_conv)
  have "?F (?F table) = filter (\<lambda>r. key r \<notin> key ` set rows) (?F table) @ ?F []"
    by (rule fold_insert_or_replace_split)
  also have "?F table = filter (\<lambda>r. key r \<notin> key ` set rows) table @ ?F []"
    by (rule fold_insert_or_replace_split)
  finally show ?thesis
    using e fold_insert_or_replace_split [of key rows table] by simp
qed

lemma fold_insert_or_replace_last:
  "k \<in> key ` set rows \<Longrightarrow>
   filter (\<lambda>r. key r = k) (fold (insert_or_replace key) rows table)
     = [last (filter (\<lambda>r. key r = k) rows)]"
proof (induction rows rule: rev_induct)
  case Nil
  then show ?case by simp
next
  case (snoc x xs)
  let ?F = "fold (insert_or_replace key) xs table"
  have step: "fold (insert_or_replace key) (xs @ [x]) table
                = filter (\<lambda>r. key r \<noteq> key x) ?F @ [x]"
    by (simp add: insert_or_replace_def)
  show ?case
  proof (cases "key x = k")
    case True
    have "filter (\<lambda>r. key r = k) (filter (\<lambda>r. key r \<noteq> key x) t) = []" for t
      using True by (induction t) auto
    with True show ?thesis unfolding step by simp
  next
    case False
    with snoc.prems have "k \<in> key ` set xs" by auto
    from snoc.IH [OF this]
    have ih: "filter (\<lambda>r. key r = k) ?F = [last (filter (\<lambda>r. key r = k) xs)]" .
    have "filter (\<lambda>r. key r = k) (filter (\<lambda>r. key r \<noteq> key x) t)
            = filter (\<lambda>r. key r = k) t" for t
      using False by (induction t) auto
    with False ih show ?thesis unfolding step by simp
  qed
qed

subsection \<open>Search\<close>

lemma sql_limit_length: "0 \<le> n \<Longrightarrow> int (length (sql_limit n rows)) \<le> n"
  by (simp add: sql_limit_def)

text \<open>
  C7. For every query and every limit, \<open>Search\<close> runs the query with the limit 10 when
  the given limit is not positive and with the given limit otherwise; the number of
  results it returns is at most that limit; and a query that the engine accepts and that
  matches no full-text row gives the empty list of results and no error.
\<close>

theorem Search_limit:
  "Search eng d query limit = SearchMessages eng d query (if limit \<le> 0 then 10 else limit)
   \<and> (Search eng d query limit = Inr results \<longrightarrow>
        int (length results) \<le> (if limit \<le> 0 then 10 else limit))
   \<and> (fts_match eng query = Some matches \<and> filter matches (messages_fts d) = [] \<longrightarrow>
        Search eng d query limit = Inr [])"
proof (intro conjI impI)
  show "Search eng d query limit = SearchMessages eng d query (if limit \<le> 0 then 10 else limit)"
    by (simp add: Search_def)
next
  assume r: "Search eng d query limit = Inr results"
  define n where "n = (if limit \<le> 0 then 10 else limit)"
  have pos: "0 \<le> n" by (simp add: n_def)
  from r have "SearchMessages eng d query n = Inr results"
    by (simp add: Search_def n_def)
  then obtain rows where "results = sql_limit n rows"
    by (auto simp: SearchMessages_def split: option.splits)
  with pos have "int (length results) \<le> n"
    by (simp add: sql_limit_length)
  then show "int (length results) \<le> (if limit \<le> 0 then 10 else limit)"
    by (simp add: n_def)
next
  assume "fts_match eng query = Some matches \<and> filter matches (messages_fts d) = []"
  then show "Search eng d query limit = Inr []"
    by (simp add: Search_def SearchMessages_def sql_limit_def)
qed

subsection \<open>Thread classification\<close>

text \<open>
  C3. For every search result, the loop of \<open>GenerateHTMLOutput\<close> takes the result's
  thread-root token as the thread root when it is not empty, otherwise the result's own
  timestamp token when the reply count is positive, and otherwise has no root. A result
  with an empty thread-root token and no positive reply count is not marked threaded, nor
  is one whose fetch fails or gives at most one message. A result is marked threaded
  exactly when the root is not empty and fetching it gives more than one message, and
  then the fetched messages are its thread context.
\<close>

theorem thread_classification:
  "(ThreadTS result \<noteq> '''' \<longrightarrow> threadRoot result = ThreadTS result)
   \<and> (ThreadTS result = '''' \<and> ReplyCount result > 0 \<longrightarrow> threadRoot result = Timestamp result)
   \<and> (ThreadTS result = '''' \<and> ReplyCount result \<le> 0 \<longrightarrow>
        \<not> IsThreaded (threadContext G result))
   \<and> (G (threadRoot result) = Inl err \<longrightarrow> \<not> IsThreaded (threadContext G result))
   \<and> (G (threadRoot result) = Inr ms \<and> length ms \<le> 1 \<longrightarrow>
        \<not> IsThreaded (threadContext G result))
   \<and> (IsThreaded (threadContext G result) \<longleftrightarrow>
        threadRoot result \<noteq> '''' \<and> (\<exists>ms. G (threadRoot result) = Inr ms \<and> 1 < length ms))
   \<and> (IsThreaded (threadContext G result) \<longrightarrow>
        G (threadRoot result) = Inr (ThreadMessages (threadContext G result)))
   \<and> OriginalResult (threadContext G result) = result"
  by (auto simp: threadContext_def threadRoot_def Let_def split: sum.splits)

subsection \<open>Idempotent upserts\<close>

lemma InsertUser_no_faults:
  "medium d = [] \<Longrightarrow>
   InsertUser d user = (None, d\<lparr>users := insert_or_replace u_id (users_values user) (users d)\<rparr>)"
  by (simp add: InsertUser_def Exec_no_faults)

lemma InsertChannel_no_faults:
  "medium d = [] \<Longrightarrow>
   InsertChannel d channel
     = (None, d\<lparr>channels := insert_or_replace c_id (channels_values channel) (channels d)\<rparr>)"
  by (simp add: InsertChannel_def Exec_no_faults)

lemma loadUsers_loop_no_faults:
  "medium (db idx) = [] \<Longrightarrow>
   loadUsers_loop idx us
     = (None, idx\<lparr>db := (db idx)\<lparr>users :=
          fold (insert_or_replace u_id) (map (users_values \<circ> toUser) us) (users (db idx))\<rparr>\<rparr>)"
  by (induction us arbitrary: idx) (simp_all add: InsertUser_no_faults)

lemma loadChannels_loop_no_faults:
  "medium (db idx) = [] \<Longrightarrow>
   loadChannels_loop idx cs
     = (None, idx\<lparr>db := (db idx)\<lparr>channels :=
          fold (insert_or_replace c_id) (map channels_values cs) (channels (db idx))\<rparr>\<rparr>)"
  by (induction cs arbitrary: idx) (simp_all add: InsertChannel_no_faults)

lemma loadUsers_twice:
  assumes "medium (db idx) = []"
  shows "loadUsers (snd (loadUsers idx (Decoded us))) (Decoded us) = loadUsers idx (Decoded us)"
  using assms
  by (simp add: loadUsers_def loadUsers_loop_no_faults fold_insert_or_replace_idem)

lemma loadChannels_twice:
  assumes "medium (db idx) = []"
  shows "loadChannels (snd (loadChannels idx (Decoded cs))) (Decoded cs)
           = loadChannels idx (Decoded cs)"
  using assms
  by (simp add: loadChannels_def loadChannels_loop_no_faults fold_insert_or_replace_idem)

lemma replace_keeps_count:
  "distinct (map key table) \<Longrightarrow> key row \<in> key ` set table \<Longrightarrow>
   length (insert_or_replace key row table) = length table"
proof (induction table)
  case Nil
  then show ?case by simp
next
  case (Cons x xs)
  show ?case
  proof (cases "key x = key row")
    case True
    with Cons.prems have "key row \<notin> key ` set xs" by auto
    then have "\<forall>r\<in>set xs. key r \<noteq> key row"
      by (metis image_eqI)
    then have "filter (\<lambda>r. key r \<noteq> key row) xs = xs"
      by (simp add: filter_id_conv)
    with True show ?thesis by (simp add: insert_or_replace_def)
  next
    case False
    with Cons show ?thesis by (auto simp: insert_or_replace_def)
  qed
qed

lemma upsert_rows:
  assumes "medium (db idx) = []"
  shows
    "fst (InsertUser (db idx) user) = None
     \<and> (distinct (map u_id (users (db idx))) \<and> User_ID user \<in> u_id ` set (users (db idx)) \<longrightarrow>
          length (users (snd (InsertUser (db idx) user))) = length (users (db idx)))
     \<and> filter (\<lambda>r. u_id r = User_ID user) (users (snd (InsertUser (db idx) user)))
          = [users_values user]
     \<and> fst (InsertChannel (db idx) channel) = None
     \<and> (distinct (map c_id (channels (db idx)))
          \<and> Channel_ID channel \<in> c_id ` set (channels (db idx)) \<longrightarrow>
          length (channels (snd (InsertChannel (db idx) channel))) = length (channels (db idx)))
     \<and> filter (\<lambda>r. c_id r = Channel_ID channel) (channels (snd (InsertChannel (db idx) channel)))
          = [channels_values channel]
     \<and> fst (loadUsers idx (Decoded us)) = None
     \<and> loadUsers (snd (loadUsers idx (Decoded us))) (Decoded us) = loadUsers idx (Decoded us)
     \<and> (k \<in> UserJSON_ID ` set us \<longrightarrow>
          filter (\<lambda>r. u_id r = k) (users (db (snd (loadUsers idx (Decoded us)))))
            = [users_values (toUser (last (filter (\<lambda>u. UserJSON_ID u = k) us)))])
     \<and> fst (loadChannels idx (Decoded cs)) = None
     \<and> loadChannels (snd (loadChannels idx (Decoded cs))) (Decoded cs)
          = loadChannels idx (Decoded cs)
     \<and> (c \<in> Channel_ID ` set cs \<longrightarrow>
          filter (\<lambda>r. c_id r = c) (channels (db (snd (loadChannels idx (Decoded cs)))))
            = [channels_values (last (filter (\<lambda>ch. Channel_ID ch = c) cs))])"
proof -
  note m = assms
  have u_key: "u_id (users_values v) = User_ID v" for v
    by (simp add: users_values_def)
  have c_key: "c_id (channels_values v) = Channel_ID v" for v
    by (simp add: channels_values_def)
  have j_key: "User_ID (toUser v) = UserJSON_ID v" for v
    by (simp add: toUser_def)
  have one: "filter (\<lambda>r. key r = key row) (insert_or_replace key row table) = [row]"
    for key :: "'r \<Rightarrow> string" and row table
    by (induction table) (auto simp: insert_or_replace_def)
  have p1: "fst (InsertUser (db idx) user) = None"
    by (simp add: InsertUser_no_faults [OF m])
  have p2: "distinct (map u_id (users (db idx))) \<and> User_ID user \<in> u_id ` set (users (db idx)) \<longrightarrow>
          length (users (snd (InsertUser (db idx) user))) = length (users (db idx))"
    using replace_keeps_count [of u_id "users (db idx)" "users_values user"]
    by (simp add: InsertUser_no_faults [OF m] u_key)
  have p3: "filter (\<lambda>r. u_id r = User_ID user) (users (snd (InsertUser (db idx) user)))
          = [users_values user]"
    using one [of u_id "users_values user" "users (db idx)"]
    by (simp add: InsertUser_no_faults [OF m] u_key)
  have p4: "fst (InsertChannel (db idx) channel) = None"
    by (simp add: InsertChannel_no_faults [OF m])
  have p5: "distinct (map c_id (channels (db idx)))
          \<and> Channel_ID channel \<in> c_id ` set (channels (db idx)) \<longrightarrow>
          length (channels (snd (InsertChannel (db idx) channel))) = length (channels (db idx))"
    using replace_keeps_count [of c_id "channels (db idx)" "channels_values channel"]
    by (simp add: InsertChannel_no_faults [OF m] c_key)
  have p6: "filter (\<lambda>r. c_id r = Channel_ID channel)
              (channels (snd (InsertChannel (db idx) channel))) = [channels_values channel]"
    using one [of c_id "channels_values channel" "channels (db idx)"]
    by (simp add: InsertChannel_no_faults [OF m] c_key)
  have p7: "fst (loadUsers idx (Decoded us)) = None"
    by (simp add: loadUsers_def loadUsers_loop_no_faults [OF m])
  have p8: "loadUsers (snd (loadUsers idx (Decoded us))) (Decoded us) = loadUsers idx (Decoded us)"
    by (rule loadUsers_twice [OF m])
  have p9: "k \<in> UserJSON_ID ` set us \<longrightarrow>
          filter (\<lambda>r. u_id r = k) (users (db (snd (loadUsers idx (Decoded us)))))
            = [users_values (toUser (last (filter (\<lambda>u. UserJSON_ID u = k) us)))]"
  proof
    assume k: "k \<in> UserJSON_ID ` set us"
    let ?rows = "map (users_values \<circ> toUser) us"
    have "u_id ` set ?rows = UserJSON_ID ` set us"
      by (simp add: image_image u_key j_key)
    with k have "k \<in> u_id ` set ?rows"
      by simp
    from fold_insert_or_replace_last [OF this, of "users (db idx)"]
    have "filter (\<lambda>r. u_id r = k) (fold (insert_or_replace u_id) ?rows (users (db idx)))
            = [last (filter (\<lambda>r. u_id r = k) ?rows)]" .
    moreover have "filter (\<lambda>r. u_id r = k) ?rows
            = map (users_values \<circ> toUser) (filter (\<lambda>u. UserJSON_ID u = k) us)"
      by (simp add: filter_map comp_def u_key j_key)
    moreover from k have "filter (\<lambda>u. UserJSON_ID u = k) us \<noteq> []"
      by (auto simp: filter_empty_conv)
    ultimately show "filter (\<lambda>r. u_id r = k) (users (db (snd (loadUsers idx (Decoded us)))))
            = [users_values (toUser (last (filter (\<lambda>u. UserJSON_ID u = k) us)))]"
      by (simp add: loadUsers_def loadUsers_loop_no_faults [OF m] last_map)
  qed
  have p10: "fst (loadChannels idx (Decoded cs)) = None"
    by (simp add: loadChannels_def loadChannels_loop_no_faults [OF m])
  have p11: "loadChannels (snd (loadChannels idx (Decoded cs))) (Decoded cs)
          = loadChannels idx (Decoded cs)"
    by (rule loadChannels_twice [OF m])
  have p12: "c \<in> Channel_ID ` set cs \<longrightarrow>
          filter (\<lambda>r. c_id r = c) (channels (db (snd (loadChannels idx (Decoded cs)))))
            = [channels_values (last (filter (\<lambda>ch. Channel_ID ch = c) cs))]"
  proof
    assume c: "c \<in> Channel_ID ` set cs"
    let ?rows = "map channels_values cs"
    have "c_id ` set ?rows = Channel_ID ` set cs"
      by (simp add: image_image c_key)
    with c have "c \<in> c_id ` set ?rows"
      by simp
    from fold_insert_or_replace_last [OF this, of "channels (db idx)"]
    have "filter (\<lambda>r. c_id r = c) (fold (insert_or_replace c_id) ?rows (channels (db idx)))
            = [last (filter (\<lambda>r. c_id r = c) ?rows)]" .
    moreover have "filter (\<lambda>r. c_id r = c) ?rows
            = map channels_values (filter (\<lambda>ch. Channel_ID ch = c) cs)"
      by (simp add: filter_map comp_def c_key)
    moreover from c have "filter (\<lambda>ch. Channel_ID ch = c) cs \<noteq> []"
      by (auto simp: filter_empty_conv)
    ultimately show "filter (\<lambda>r. c_id r = c) (channels (db (snd (loadChannels idx (Decoded cs)))))
            = [channels_values (last (filter (\<lambda>ch. Channel_ID ch = c) cs))]"
      by (simp add: loadChannels_def loadChannels_loop_no_faults [OF m] last_map)
  qed
  from p1 p2 p3 p4 p5 p6 p7 p8 p9 p10 p11 p12 show ?thesis by blast
qed

text \<open>
  C6. While the store accepts writes, upserting a User or a Channel never fails; when a
  row with the same identifier exists the number of rows stays the same, and afterwards
  there is one row with that identifier, each of whose columns holds the matching field of
  the record given. Loading the same \<open>users.json\<close> or \<open>channels.json\<close> a second time gives
  the state the first load gave, so the counts are unchanged, and every identifier of the
  file has one row, whose columns hold the fields of the file's last entry with this
  identifier.
\<close>

theorem upsert_idempotent:
  assumes "medium (db idx) = []"
  shows
    "fst (InsertUser (db idx) user) = None
     \<and> (distinct (map u_id (users (db idx))) \<and> User_ID user \<in> u_id ` set (users (db idx)) \<longrightarrow>
          length (users (snd (InsertUser (db idx) user))) = length (users (db idx)))
     \<and> filter (\<lambda>r. u_id r = User_ID user) (users (snd (InsertUser (db idx) user)))
          = [\<lparr>u_id = User_ID user, u_name = User_Name user,
              u_real_name = Some (User_RealName user),
              u_display_name = User_DisplayName user,
              u_is_bot = User_IsBot user, u_deleted = User_Deleted user\<rparr>]
     \<and> fst (InsertChannel (db idx) channel) = None
     \<and> (distinct (map c_id (channels (db idx)))
          \<and> Channel_ID channel \<in> c_id ` set (channels (db idx)) \<longrightarrow>
          length (channels (snd (InsertChannel (db idx) channel))) = length (channels (db idx)))
     \<and> filter (\<lambda>r. c_id r = Channel_ID channel) (channels (snd (InsertChannel (db idx) channel)))
          = [\<lparr>c_id = Channel_ID channel, c_name = Channel_Name channel,
              c_created = Channel_Created channel, c_creator = Channel_Creator channel,
              c_is_archived = Channel_IsArchived channel\<rparr>]
     \<and> fst (loadUsers idx (Decoded us)) = None
     \<and> loadUsers (snd (loadUsers idx (Decoded us))) (Decoded us) = loadUsers idx (Decoded us)
     \<and> (k \<in> UserJSON_ID ` set us \<longrightarrow>
          (let j = last (filter (\<lambda>u. UserJSON_ID u = k) us)
           in filter (\<lambda>r. u_id r = k)
                (users (db (snd (loadUsers (snd (loadUsers idx (Decoded us))) (Decoded us)))))
              = [\<lparr>u_id = k, u_name = UserJSON_Name j,
                  u_real_name = Some (Profile_RealName (UserJSON_Profile j)),
                  u_display_name = Profile_DisplayName (UserJSON_Profile j),
                  u_is_bot = UserJSON_IsBot j, u_deleted = UserJSON_Deleted j\<rparr>]))
     \<and> fst (loadChannels idx (Decoded cs)) = None
     \<and> loadChannels (snd (loadChannels idx (Decoded cs))) (Decoded cs)
          = loadChannels idx (Decoded cs)
     \<and> (c \<in> Channel_ID ` set cs \<longrightarrow>
          (let ch = last (filter (\<lambda>ch. Channel_ID ch = c) cs)
           in filter (\<lambda>r. c_id r = c)
                (channels (db (snd (loadChannels (snd (loadChannels idx (Decoded cs)))
                                      (Decoded cs)))))
              = [\<lparr>c_id = c, c_name = Channel_Name ch, c_created = Channel_Created ch,
                  c_creator = Channel_Creator ch, c_is_archived = Channel_IsArchived ch\<rparr>]))"
proof -
  note r = upsert_rows [OF assms, of user channel us k cs c]
  have lu: "k \<in> UserJSON_ID ` set us \<Longrightarrow>
            UserJSON_ID (last (filter (\<lambda>u. UserJSON_ID u = k) us)) = k"
  proof -
    assume "k \<in> UserJSON_ID ` set us"
    then have ne: "filter (\<lambda>u. UserJSON_ID u = k) us \<noteq> []"
      by (auto simp: filter_empty_conv)
    from last_in_set [OF ne] show ?thesis by simp
  qed
  have lc: "c \<in> Channel_ID ` set cs \<Longrightarrow>
            Channel_ID (last (filter (\<lambda>ch. Channel_ID ch = c) cs)) = c"
  proof -
    assume "c \<in> Channel_ID ` set cs"
    then have ne: "filter (\<lambda>ch. Channel_ID ch = c) cs \<noteq> []"
      by (auto simp: filter_empty_conv)
    from last_in_set [OF ne] show ?thesis by simp
  qed
  from r have tu: "loadUsers (snd (loadUsers idx (Decoded us))) (Decoded us)
                     = loadUsers idx (Decoded us)"
    and tc: "loadChannels (snd (loadChannels idx (Decoded cs))) (Decoded cs)
                     = loadChannels idx (Decoded cs)"
    by blast+
  from r lu lc show ?thesis
    unfolding tu tc
    by (simp add: users_values_def channels_values_def toUser_def Let_def)
qed

subsection \<open>Record filtering and timestamps\<close>

lemma acceptRecord_skips:
  assumes "(\<exists>err. Unmarshal_map rawMsg = Inl err)
         \<or> (\<exists>msgMap. Unmarshal_map rawMsg = Inr msgMap
              \<and> (as_string (msgMap ''user'') = None \<or> as_string (msgMap ''text'') = None
                   \<or> (\<exists>text. as_string (msgMap ''text'') = Some text
                         \<and> TrimSpace text = '''')
                   \<or> as_string (msgMap ''subtype'') = Some ''bot_message''))"
  shows "acceptRecord date filename rawMsg = None"
  using assms by (auto simp: acceptRecord_def split: option.splits)

lemma processRecords_skip:
  "acceptRecord date filename rawMsg = None \<Longrightarrow>
   processRecords d date filename (before @ rawMsg # after)
     = processRecords d date filename (before @ after)"
  by (induction before arbitrary: d) (auto split: option.splits prod.splits)

text \<open>
  C5. A raw record that is no JSON object, or has no string as author identifier, or no
  string as text, or a text that is blank after trimming white space, or the subtype
  \<open>bot_message\<close>, is skipped: no \<open>Message\<close> is built from it, and the record loop and
  \<open>processMessageFile\<close> give, wherever the record stands in the file, the result and the
  store they give for the file without it. So nothing of the record reaches the store and
  the records after it are processed as if it were not there.
\<close>

theorem skipped_records_never_stored:
  assumes "(\<exists>err. Unmarshal_map rawMsg = Inl err)
         \<or> (\<exists>msgMap. Unmarshal_map rawMsg = Inr msgMap
              \<and> (as_string (msgMap ''user'') = None \<or> as_string (msgMap ''text'') = None
                   \<or> (\<exists>text. as_string (msgMap ''text'') = Some text
                         \<and> TrimSpace text = '''')
                   \<or> as_string (msgMap ''subtype'') = Some ''bot_message''))"
  shows "acceptRecord date filename rawMsg = None
       \<and> processRecords d date filename (before @ rawMsg # after)
           = processRecords d date filename (before @ after)
       \<and> processMessageFile idx (Decoded (JArray (before @ rawMsg # after))) filename
           = processMessageFile idx (Decoded (JArray (before @ after))) filename"
proof -
  have a: "acceptRecord date filename rawMsg = None" for date
    using assms by (rule acceptRecord_skips)
  have b: "processRecords d date filename (before @ rawMsg # after)
           = processRecords d date filename (before @ after)" for d date
    using a by (rule processRecords_skip)
  have c: "processMessageFile idx (Decoded (JArray (before @ rawMsg # after))) filename
           = processMessageFile idx (Decoded (JArray (before @ after))) filename"
    by (simp add: processMessageFile_def Unmarshal_raw_list_def b split: sum.splits)
  from a b c show ?thesis by blast
qed

lemma parseSlackTimestamp_empty: "parseSlackTimestamp '''' = Inl InvalidTimestampFormat"
  by (simp add: parseSlackTimestamp_def)

lemma InsertMessage_no_faults:
  "medium d = [] \<Longrightarrow>
   InsertMessage d message
     = (None,
        messages_fts_insert
          \<lparr>m_id = next_id d, m_user_id = UserID message, m_text = Text message,
           m_type = Type message, m_subtype = Subtype message,
           m_timestamp = Timestamp message, m_date = Date message,
           m_filename = Filename message\<rparr>
          (d\<lparr>messages := messages d @
                [\<lparr>m_id = next_id d, m_user_id = UserID message, m_text = Text message,
                  m_type = Type message, m_subtype = Subtype message,
                  m_timestamp = Timestamp message, m_date = Date message,
                  m_filename = Filename message\<rparr>],
             sqlite_sequence := next_id d\<rparr>))"
  by (simp add: InsertMessage_def Exec_no_faults Let_def)

text \<open>
  C4. For an accepted record of a file whose name gives the date \<open>date\<close>, the token
  stored on the \<open>Message\<close> is the string of the record's \<open>ts\<close> field as it stands (empty
  when the field is no string); the calendar timestamp is \<open>time.Unix(seconds, 0)\<close> of the
  seconds part when \<open>parseSlackTimestamp\<close> accepts the token, and the date of the file
  name when it does not; and the row that \<open>processMessageFile\<close> appends to the store
  carries this token and this timestamp.
\<close>

theorem timestamp_fallback:
  assumes "Unmarshal_map rawMsg = Inr msgMap"
    and "acceptRecord date filename rawMsg = Some message"
    and "Parse_date (TrimSuffix filename ''.json'') = Inr date"
    and "medium (db idx) = []"
  shows "Timestamp message = string_or_zero (msgMap ''ts'')
       \<and> Date message = (case parseSlackTimestamp (string_or_zero (msgMap ''ts'')) of
                           Inr ts \<Rightarrow> ts | Inl err \<Rightarrow> date)
       \<and> (parseSlackTimestamp (string_or_zero (msgMap ''ts'')) = Inr ts \<longrightarrow>
            (\<exists>seconds. ParseInt (hd (Split (string_or_zero (msgMap ''ts'')) (CHR ''.'')))
                          = Inr seconds \<and> Date message = Unix seconds 0))
       \<and> processMessageFile idx (Decoded (JArray [rawMsg])) filename
           = (None, idx\<lparr>db := snd (InsertMessage (db idx) message)\<rparr>)
       \<and> map (\<lambda>r. (m_timestamp r, m_date r)) (messages (snd (InsertMessage (db idx) message)))
           = map (\<lambda>r. (m_timestamp r, m_date r)) (messages (db idx))
             @ [(Timestamp message, Date message)]"
proof -
  let ?tok = "string_or_zero (msgMap ''ts'')"
  from assms(1,2) have t: "Timestamp message = ?tok"
    by (auto simp: acceptRecord_def Let_def split: option.splits if_splits)
  from assms(1,2) have d: "Date message = (case parseSlackTimestamp ?tok of
                           Inr ts \<Rightarrow> ts | Inl err \<Rightarrow> date)"
    by (auto simp: acceptRecord_def Let_def parseSlackTimestamp_empty
             split: option.splits if_splits sum.splits)
  have u: "parseSlackTimestamp ?tok = Inr ts \<longrightarrow>
            (\<exists>seconds. ParseInt (hd (Split ?tok (CHR ''.''))) = Inr seconds
               \<and> Date message = Unix seconds 0)"
    unfolding d by (auto simp: parseSlackTimestamp_def Let_def split: if_splits sum.splits)
  have f: "processMessageFile idx (Decoded (JArray [rawMsg])) filename
           = (None, idx\<lparr>db := snd (InsertMessage (db idx) message)\<rparr>)"
    using assms(2,3,4)
    by (simp add: processMessageFile_def Unmarshal_raw_list_def InsertMessage_no_faults)
  have s: "map (\<lambda>r. (m_timestamp r, m_date r)) (messages (snd (InsertMessage (db idx) message)))
           = map (\<lambda>r. (m_timestamp r, m_date r)) (messages (db idx))
             @ [(Timestamp message, Date message)]"
    using assms(4) by (simp add: InsertMessage_no_faults messages_fts_insert_def)
  from t d u f s show ?thesis by blast
qed

subsection \<open>Unfolding the examples\<close>

lemmas ex_defs =
  ex_alice_def ex_bot_def ex_channel_def ex_db_def ex_idx_def ex_record_def
  ex_record_next_day_def ex_message_def users_values_def channels_values_def toUser_def

lemmas run_defs =
  processMessageFiles_def processMessageFile_def Unmarshal_raw_list_def Unmarshal_map_def
  acceptRecord_def as_string_def string_or_zero_def TrimSpace_def unicodeSpaces_def
  parseSlackTimestamp_def ParseInt_def ParseUint_def isDigit_def digit_def
  Parse_date_def daysIn_def TrimSuffix_def HasSuffix_def Base_def
  InsertMessage_def Exec_def messages_fts_insert_def next_id_def COALESCE_def Let_def

subsection \<open>Full-text rows\<close>

lemma InsertMessage_unknown_author:
  assumes "medium d = []" and "UserID message \<notin> u_id ` set (users d)"
  shows "fst (InsertMessage d message) = None
       \<and> length (messages (snd (InsertMessage d message))) = Suc (length (messages d))
       \<and> messages_fts (snd (InsertMessage d message)) = messages_fts d"
proof -
  from assms(2) have "\<forall>u\<in>set (users d). u_id u \<noteq> UserID message"
    by (metis image_eqI)
  then have "filter (\<lambda>u. u_id u = UserID message) (users d) = []"
    by (simp add: filter_empty_conv)
  with assms(1) show ?thesis
    by (simp add: InsertMessage_no_faults messages_fts_insert_def)
qed

lemma InsertMessage_known_author:
  assumes "medium d = []" and "filter (\<lambda>u. u_id u = UserID message) (users d) = [u]"
  shows "messages_fts (snd (InsertMessage d message))
           = messages_fts d @
             [\<lparr>fts_rowid = next_id d, fts_text = Text message, fts_user_name = u_name u,
               fts_user_real_name = COALESCE (u_real_name u) '''',
               fts_filename = Filename message\<rparr>]"
  using assms by (simp add: InsertMessage_no_faults messages_fts_insert_def COALESCE_def)

text \<open>
  C1, at the input where it fails. A message whose author is not among the loaded users
  is appended without error and gets the id 1, and the full-text table stays empty: the
  trigger selects from \<open>users\<close> and finds no row to insert.
\<close>

theorem unknown_author_gets_no_fulltext_row:
  "fst (InsertMessage ex_db ex_message_unknown_author) = None
   \<and> map m_id (messages (snd (InsertMessage ex_db ex_message_unknown_author))) = [1]
   \<and> map m_user_id (messages (snd (InsertMessage ex_db ex_message_unknown_author))) = [''U404'']
   \<and> messages_fts (snd (InsertMessage ex_db ex_message_unknown_author)) = []"
  by (simp add: InsertMessage_def Exec_def messages_fts_insert_def next_id_def Let_def ex_defs
      ex_message_unknown_author_def)

lemma known_author_gets_fulltext_row:
  "messages_fts (snd (InsertMessage ex_db ex_message_alice))
     = [\<lparr>fts_rowid = 1, fts_text = ''hello from a guest'', fts_user_name = ''alice'',
         fts_user_real_name = ''Alice Liddell'', fts_filename = ''2019-08-15.json''\<rparr>]"
  by (simp add: InsertMessage_def Exec_def messages_fts_insert_def next_id_def Let_def
      COALESCE_def ex_defs ex_message_alice_def ex_message_unknown_author_def)

subsection \<open>Store write errors during ingestion\<close>

lemma processMessageFile_keeps:
  "processMessageFile idx file filename = (r, idx1) \<Longrightarrow>
   processedFiles idx1 = processedFiles idx \<and> warnings idx1 = warnings idx
   \<and> totalFiles idx1 = totalFiles idx"
  by (auto simp: processMessageFile_def split: file_result.splits sum.splits prod.splits)

lemma countFiles_no_walk_error:
  "\<forall>e\<in>set walk. entry_err e = None \<Longrightarrow>
   fst (countFiles idx walk) = None
   \<and> processedFiles (snd (countFiles idx walk)) = processedFiles idx
   \<and> warnings (snd (countFiles idx walk)) = warnings idx"
  by (induction walk arbitrary: idx) auto

lemma processFiles_no_walk_error:
  "\<forall>e\<in>set walk. entry_err e = None \<Longrightarrow>
   fst (processFiles idx walk) = None
   \<and> processedFiles (snd (processFiles idx walk)) + int (length (warnings (snd (processFiles idx walk))))
       = processedFiles idx + int (length (warnings idx))
         + int (length (filter (\<lambda>e. \<not> entry_IsDir e \<and> HasSuffix (entry_path e) ''.json'') walk))"
proof (induction walk arbitrary: idx)
  case Nil
  show ?case by simp
next
  case (Cons e rest)
  from Cons.prems have ok: "entry_err e = None" and rest: "\<forall>e\<in>set rest. entry_err e = None"
    by simp_all
  note ih = Cons.IH [OF rest]
  show ?case
  proof (cases "entry_IsDir e \<or> \<not> HasSuffix (entry_path e) ''.json''")
    case True
    with ok ih [of idx] show ?thesis by auto
  next
    case False
    obtain r idx1 where p: "processMessageFile idx (entry_file e) (Base (entry_path e)) = (r, idx1)"
      by (cases "processMessageFile idx (entry_file e) (Base (entry_path e))")
    note k = processMessageFile_keeps [OF p]
    show ?thesis
    proof (cases r)
      case None
      with ok False p k ih [of "idx1\<lparr>processedFiles := processedFiles idx1 + 1\<rparr>"]
      show ?thesis by (simp add: Let_def)
    next
      case (Some err)
      with ok False p k
        ih [of "idx1\<lparr>warnings := warnings idx1 @ [(Base (entry_path e), err)]\<rparr>"]
      show ?thesis by (simp add: Let_def)
    qed
  qed
qed

lemma processRecords_append:
  "processRecords d date filename before = (None, d0) \<Longrightarrow>
   processRecords d date filename (before @ records) = processRecords d0 date filename records"
proof (induction before arbitrary: d)
  case Nil
  then show ?case by simp
next
  case (Cons r rs)
  show ?case
  proof (cases "acceptRecord date filename r")
    case None
    with Cons show ?thesis by simp
  next
    case (Some message)
    obtain res d1 where i: "InsertMessage d message = (res, d1)"
      by (cases "InsertMessage d message")
    with Some Cons.prems have "res = None" and "processRecords d1 date filename rs = (None, d0)"
      by (auto split: option.splits)
    with Some i Cons.IH [of d1] show ?thesis by simp
  qed
qed

lemma processFiles_append:
  "processFiles idx before = (None, idx0) \<Longrightarrow>
   processFiles idx (before @ walk) = processFiles idx0 walk"
proof (induction before arbitrary: idx)
  case Nil
  then show ?case by simp
next
  case (Cons e es)
  from Cons.prems have ok: "entry_err e = None"
    by (auto split: option.splits)
  show ?case
  proof (cases "entry_IsDir e \<or> \<not> HasSuffix (entry_path e) ''.json''")
    case True
    with ok Cons show ?thesis by auto
  next
    case False
    obtain r idx1 where p: "processMessageFile idx (entry_file e) (Base (entry_path e)) = (r, idx1)"
      by (cases "processMessageFile idx (entry_file e) (Base (entry_path e))")
    show ?thesis
    proof (cases r)
      case None
      with ok False p Cons.prems
        Cons.IH [of "idx1\<lparr>processedFiles := processedFiles idx1 + 1\<rparr>"]
      show ?thesis by (simp add: Let_def)
    next
      case (Some err)
      with ok False p Cons.prems
        Cons.IH [of "idx1\<lparr>warnings := warnings idx1 @ [(Base (entry_path e), err)]\<rparr>"]
      show ?thesis by (simp add: Let_def)
    qed
  qed
qed

lemma InsertMessage_fails:
  "InsertMessage d message = (Some err, d') \<Longrightarrow>
   err = ExecError \<and> users d' = users d \<and> channels d' = channels d
   \<and> messages d' = messages d \<and> messages_fts d' = messages_fts d"
  by (auto simp: InsertMessage_def Exec_def Let_def messages_fts_insert_def
           split: list.splits if_splits)

text \<open>
  C2, as the code has it. When appending a message fails at any record of a batch file,
  after the records before it went through, the record loop stops there: nothing of that
  record or of the records after it reaches the store, and \<open>processMessageFile\<close> returns
  the error. The walk, wherever the file stands in it, records the error as a warning for
  the file, does not count the file as processed, and goes on with the entries that
  follow. Unless the walk of the directory itself reports an error,
  \<open>processMessageFiles\<close> returns no error, and every JSON file of the walk is either
  counted as processed or has a warning.
\<close>

theorem store_write_error_is_a_warning:
  "(processFiles idx before_walk = (None, idx0)
    \<and> entry_err e = None \<and> \<not> entry_IsDir e \<and> HasSuffix (entry_path e) ''.json''
    \<and> entry_file e = Decoded (JArray (before @ rawMsg # after))
    \<and> Parse_date (TrimSuffix (Base (entry_path e)) ''.json'') = Inr date
    \<and> processRecords (db idx0) date (Base (entry_path e)) before = (None, d0)
    \<and> acceptRecord date (Base (entry_path e)) rawMsg = Some message
    \<and> InsertMessage d0 message = (Some err, d') \<longrightarrow>
      processRecords (db idx0) date (Base (entry_path e)) (before @ rawMsg # after)
        = (Some (Wrapped ''failed to insert message'' err), d')
      \<and> messages d' = messages d0 \<and> messages_fts d' = messages_fts d0
      \<and> processMessageFile idx0 (entry_file e) (Base (entry_path e))
          = (Some (Wrapped ''failed to insert message'' err), idx0\<lparr>db := d'\<rparr>)
      \<and> processFiles idx (before_walk @ e # after_walk)
          = processFiles
              (idx0\<lparr>db := d',
                    warnings := warnings idx0
                      @ [(Base (entry_path e), Wrapped ''failed to insert message'' err)]\<rparr>)
              after_walk)
   \<and> ((\<forall>e\<in>set walk. entry_err e = None) \<longrightarrow>
        fst (processMessageFiles idx walk) = None
        \<and> processedFiles (snd (processMessageFiles idx walk))
            + int (length (warnings (snd (processMessageFiles idx walk))))
          = processedFiles idx + int (length (warnings idx))
            + int (length (filter (\<lambda>e. \<not> entry_IsDir e \<and> HasSuffix (entry_path e) ''.json'')
                             walk)))"
proof (intro conjI impI)
  assume h: "processFiles idx before_walk = (None, idx0)
    \<and> entry_err e = None \<and> \<not> entry_IsDir e \<and> HasSuffix (entry_path e) ''.json''
    \<and> entry_file e = Decoded (JArray (before @ rawMsg # after))
    \<and> Parse_date (TrimSuffix (Base (entry_path e)) ''.json'') = Inr date
    \<and> processRecords (db idx0) date (Base (entry_path e)) before = (None, d0)
    \<and> acceptRecord date (Base (entry_path e)) rawMsg = Some message
    \<and> InsertMessage d0 message = (Some err, d')"
  let ?fn = "Base (entry_path e)"
  let ?w = "Wrapped ''failed to insert message'' err"
  from h have "processRecords d0 date ?fn (rawMsg # after) = (Some ?w, d')"
    by simp
  with h show r: "processRecords (db idx0) date ?fn (before @ rawMsg # after) = (Some ?w, d')"
    by (simp add: processRecords_append)
  from h InsertMessage_fails [of d0 message err d']
  show "messages d' = messages d0" and "messages_fts d' = messages_fts d0"
    by simp_all
  from h r show f: "processMessageFile idx0 (entry_file e) ?fn = (Some ?w, idx0\<lparr>db := d'\<rparr>)"
    by (simp add: processMessageFile_def Unmarshal_raw_list_def)
  from h have "processFiles idx (before_walk @ e # after_walk) = processFiles idx0 (e # after_walk)"
    by (simp add: processFiles_append)
  also from h f have "\<dots> = processFiles
              (idx0\<lparr>db := d', warnings := warnings idx0 @ [(?fn, ?w)]\<rparr>) after_walk"
    by (simp add: Let_def)
  finally show "processFiles idx (before_walk @ e # after_walk)
          = processFiles (idx0\<lparr>db := d', warnings := warnings idx0 @ [(?fn, ?w)]\<rparr>) after_walk" .
next
  assume w: "\<forall>e\<in>set walk. entry_err e = None"
  obtain idx0 where c: "countFiles idx walk = (None, idx0)"
    using countFiles_no_walk_error [OF w, of idx] by (cases "countFiles idx walk") auto
  then show "fst (processMessageFiles idx walk) = None"
    using processFiles_no_walk_error [OF w, of idx0] by (simp add: processMessageFiles_def)
next
  assume w: "\<forall>e\<in>set walk. entry_err e = None"
  obtain idx0 where c: "countFiles idx walk = (None, idx0)"
    using countFiles_no_walk_error [OF w, of idx] by (cases "countFiles idx walk") auto
  with countFiles_no_walk_error [OF w, of idx]
  have "processedFiles idx0 = processedFiles idx" "warnings idx0 = warnings idx"
    by simp_all
  with c show "processedFiles (snd (processMessageFiles idx walk))
            + int (length (warnings (snd (processMessageFiles idx walk))))
          = processedFiles idx + int (length (warnings idx))
            + int (length (filter (\<lambda>e. \<not> entry_IsDir e \<and> HasSuffix (entry_path e) ''.json'')
                             walk))"
    using processFiles_no_walk_error [OF w, of idx0] by (simp add: processMessageFiles_def)
qed

theorem store_write_error_is_a_warning_witness:
  "fst (processMessageFile ex_idx_late_fault
          (Decoded (JArray [ex_record, ex_record_next_day, ex_record_bad_ts]))
          ''2019-08-15.json'')
     = Some (Wrapped ''failed to insert message'' ExecError)
   \<and> map m_text (messages (db (snd (processMessageFile ex_idx_late_fault
          (Decoded (JArray [ex_record, ex_record_next_day, ex_record_bad_ts]))
          ''2019-08-15.json''))))
     = [''rotate the certs'']
   \<and> fst (processMessageFiles ex_idx_late_fault ex_walk_three) = None
   \<and> map m_filename (messages (db (snd (processMessageFiles ex_idx_late_fault ex_walk_three))))
     = [''2019-08-15.json'', ''2019-08-16.json'']
   \<and> map m_text (messages (db (snd (processMessageFiles ex_idx_late_fault ex_walk_three))))
     = [''rotate the certs'', ''certs rotated'']
   \<and> processedFiles (snd (processMessageFiles ex_idx_late_fault ex_walk_three)) = 1
   \<and> warnings (snd (processMessageFiles ex_idx_late_fault ex_walk_three))
     = [(''2019-08-15.json'', Wrapped ''failed to insert message'' ExecError)]"
proof -
  let ?dir = "\<lparr>entry_path = ''source-data/sig-auth'', entry_IsDir = True, entry_err = None,
               entry_file = ReadFails\<rparr>"
  let ?e = "\<lparr>entry_path = ''source-data/sig-auth/2019-08-15.json'', entry_IsDir = False,
             entry_err = None,
             entry_file = Decoded (JArray [ex_record, ex_record_next_day, ex_record_bad_ts])\<rparr>"
  let ?next = "\<lparr>entry_path = ''source-data/sig-auth/2019-08-16.json'', entry_IsDir = False,
                entry_err = None, entry_file = Decoded (JArray [ex_record_next_day])\<rparr>"
  let ?w = "Wrapped ''failed to insert message'' ExecError"
  let ?date = "UTCDate 2019 8 15"
  let ?idx = "ex_idx_late_fault\<lparr>totalFiles := 2\<rparr>"
  let ?d0 = "ex_db_one_message\<lparr>medium := [True]\<rparr>"
  let ?msg = "ex_message\<lparr>Text := ''certs rotated'', Timestamp := ''1565938986.000100'',
                          Date := Unix 1565938986 0\<rparr>"
  have base: "Base (entry_path ?e) = ''2019-08-15.json''"
    by (simp add: Base_def)
  have walk: "ex_walk_three = [?dir] @ ?e # [?next]"
    by (simp add: ex_walk_three_def)
  have count: "countFiles ex_idx_late_fault ex_walk_three = (None, ?idx)"
    by (simp add: ex_walk_three_def HasSuffix_def ex_idx_late_fault_def ex_idx_def)
  have h: "processFiles ?idx [?dir] = (None, ?idx)
    \<and> entry_err ?e = None \<and> \<not> entry_IsDir ?e \<and> HasSuffix (entry_path ?e) ''.json''
    \<and> entry_file ?e = Decoded (JArray ([ex_record] @ ex_record_next_day # [ex_record_bad_ts]))
    \<and> Parse_date (TrimSuffix (Base (entry_path ?e)) ''.json'') = Inr ?date
    \<and> processRecords (db ?idx) ?date (Base (entry_path ?e)) [ex_record] = (None, ?d0)
    \<and> acceptRecord ?date (Base (entry_path ?e)) ex_record_next_day = Some ?msg
    \<and> InsertMessage ?d0 ?msg = (Some ExecError, ex_db_one_message)"
    unfolding base
    by (simp add: run_defs ex_defs ex_idx_late_fault_def ex_db_one_message_def)
  note t = store_write_error_is_a_warning
      [of ?idx "[?dir]" ?idx ?e "[ex_record]" ex_record_next_day "[ex_record_bad_ts]" ?date
          ?d0 ?msg ExecError ex_db_one_message "[?next]" ex_walk_three]
  from t h have p: "processFiles ?idx ([?dir] @ ?e # [?next])
          = processFiles
              (?idx\<lparr>db := ex_db_one_message,
                    warnings := warnings ?idx @ [(Base (entry_path ?e), ?w)]\<rparr>) [?next]"
    by blast
  have h': "processFiles ex_idx_late_fault [] = (None, ex_idx_late_fault)
    \<and> entry_err ?e = None \<and> \<not> entry_IsDir ?e \<and> HasSuffix (entry_path ?e) ''.json''
    \<and> entry_file ?e = Decoded (JArray ([ex_record] @ ex_record_next_day # [ex_record_bad_ts]))
    \<and> Parse_date (TrimSuffix (Base (entry_path ?e)) ''.json'') = Inr ?date
    \<and> processRecords (db ex_idx_late_fault) ?date (Base (entry_path ?e)) [ex_record]
        = (None, ?d0)
    \<and> acceptRecord ?date (Base (entry_path ?e)) ex_record_next_day = Some ?msg
    \<and> InsertMessage ?d0 ?msg = (Some ExecError, ex_db_one_message)"
    using h by simp
  note t' = store_write_error_is_a_warning
      [of ex_idx_late_fault "[]" ex_idx_late_fault ?e "[ex_record]" ex_record_next_day
          "[ex_record_bad_ts]" ?date ?d0 ?msg ExecError ex_db_one_message "[?next]" ex_walk_three]
  from t' h' have "processMessageFile ex_idx_late_fault (entry_file ?e) (Base (entry_path ?e))
          = (Some ?w, ex_idx_late_fault\<lparr>db := ex_db_one_message\<rparr>)"
    by blast
  then have f': "processMessageFile ex_idx_late_fault
          (Decoded (JArray [ex_record, ex_record_next_day, ex_record_bad_ts])) ''2019-08-15.json''
          = (Some ?w, ex_idx_late_fault\<lparr>db := ex_db_one_message\<rparr>)"
    unfolding base by simp
  have a: "fst (processMessageFile ex_idx_late_fault
          (Decoded (JArray [ex_record, ex_record_next_day, ex_record_bad_ts]))
          ''2019-08-15.json'') = Some ?w"
    by (simp add: f')
  have b: "map m_text (messages (db (snd (processMessageFile ex_idx_late_fault
          (Decoded (JArray [ex_record, ex_record_next_day, ex_record_bad_ts]))
          ''2019-08-15.json'')))) = [''rotate the certs'']"
    by (simp add: f' ex_db_one_message_def)
  have q: "processMessageFiles ex_idx_late_fault ex_walk_three
             = processFiles
              (?idx\<lparr>db := ex_db_one_message,
                    warnings := warnings ?idx @ [(Base (entry_path ?e), ?w)]\<rparr>) [?next]"
    using p count unfolding walk [symmetric] by (simp add: processMessageFiles_def)
  have r: "processFiles
              (?idx\<lparr>db := ex_db_one_message,
                    warnings := warnings ?idx @ [(Base (entry_path ?e), ?w)]\<rparr>) [?next]
           = (None, ?idx\<lparr>db := ex_db_one_message\<lparr>messages := messages ex_db_one_message @
                 [\<lparr>m_id = 2, m_user_id = ''U100'', m_text = ''certs rotated'',
                   m_type = ''message'', m_subtype = '''',
                   m_timestamp = ''1565938986.000100'', m_date = Unix 1565938986 0,
                   m_filename = ''2019-08-16.json''\<rparr>],
                messages_fts := messages_fts ex_db_one_message @
                 [\<lparr>fts_rowid = 2, fts_text = ''certs rotated'', fts_user_name = ''alice'',
                   fts_user_real_name = ''Alice Liddell'', fts_filename = ''2019-08-16.json''\<rparr>],
                sqlite_sequence := 2\<rparr>,
              warnings := [(''2019-08-15.json'', ?w)], processedFiles := 1\<rparr>)"
    by (simp add: run_defs ex_defs ex_idx_late_fault_def ex_db_one_message_def)
  show ?thesis
    unfolding q r using a b by (simp add: ex_db_one_message_def)
qed

text \<open>
  C2 as the specification states it fails on this run: the first write fails, so the file
  \<open>2019-08-15.json\<close> is given up with an error; \<open>processMessageFiles\<close> still returns no
  error, and the next file, \<open>2019-08-16.json\<close>, is processed and its message stored.
\<close>

theorem store_write_error_does_not_abort:
  "fst (processMessageFile ex_idx_faulty (Decoded (JArray [ex_record])) ''2019-08-15.json'')
     = Some (Wrapped ''failed to insert message'' ExecError)
   \<and> fst (processMessageFiles ex_idx_faulty ex_walk) = None
   \<and> map m_filename (messages (db (snd (processMessageFiles ex_idx_faulty ex_walk))))
       = [''2019-08-16.json'']
   \<and> processedFiles (snd (processMessageFiles ex_idx_faulty ex_walk)) = 1
   \<and> warnings (snd (processMessageFiles ex_idx_faulty ex_walk))
       = [(''2019-08-15.json'', Wrapped ''failed to insert message'' ExecError)]"
  by (simp add: run_defs ex_defs ex_idx_faulty_def ex_walk_def)

subsection \<open>Concrete runs: search and threads\<close>

lemma ex_db_indexed_eval:
  "ex_db_indexed =
     ex_db\<lparr>messages :=
             [\<lparr>m_id = 1, m_user_id = ''U100'', m_text = ''rotate the certs'',
               m_type = ''message'', m_subtype = '''',
               m_timestamp = ''1565852586.087600'', m_date = Unix 1565852586 0,
               m_filename = ''2019-08-15.json''\<rparr>,
              \<lparr>m_id = 2, m_user_id = ''U100'', m_text = ''certs rotated'',
               m_type = ''message'', m_subtype = '''',
               m_timestamp = ''1565938986.000100'', m_date = Unix 1565938986 0,
               m_filename = ''2019-08-16.json''\<rparr>],
           messages_fts :=
             [\<lparr>fts_rowid = 1, fts_text = ''rotate the certs'', fts_user_name = ''alice'',
               fts_user_real_name = ''Alice Liddell'', fts_filename = ''2019-08-15.json''\<rparr>,
              \<lparr>fts_rowid = 2, fts_text = ''certs rotated'', fts_user_name = ''alice'',
               fts_user_real_name = ''Alice Liddell'', fts_filename = ''2019-08-16.json''\<rparr>],
           sqlite_sequence := 2\<rparr>"
  by (simp add: ex_db_indexed_def run_defs ex_defs ex_walk_def)

lemma ex_search_certs: "Search ex_engine ex_db_indexed ''certs'' 1 = Inr [ex_result]"
  by (simp add: ex_db_indexed_eval Search_def SearchMessages_def sql_limit_def
      left_join_users_def scan_result_def COALESCE_def ex_defs ex_engine_def ex_result_def)

theorem Search_limit_witness:
  "Search ex_engine ex_db_indexed ''certs'' 0
     = SearchMessages ex_engine ex_db_indexed ''certs'' 10
   \<and> Search ex_engine ex_db_indexed ''certs'' 1 = Inr [ex_result]
   \<and> int (length [ex_result]) \<le> 1
   \<and> Search ex_engine ex_db_indexed ''kubelet'' (- 3) = Inr []"
proof -
  let ?kubelet = "\<lambda>row. ''kubelet'' \<in> set (Split (fts_text row) (CHR '' ''))"
  have h: "fts_match ex_engine ''kubelet'' = Some ?kubelet
           \<and> filter ?kubelet (messages_fts ex_db_indexed) = []"
    by (simp add: ex_engine_def ex_db_indexed_eval ex_db_def)
  from Search_limit [of ex_engine ex_db_indexed "''certs''" 0]
  have a: "Search ex_engine ex_db_indexed ''certs'' 0
             = SearchMessages ex_engine ex_db_indexed ''certs'' 10"
    by simp
  from Search_limit [of ex_engine ex_db_indexed "''certs''" 1 "[ex_result]"] ex_search_certs
  have b: "int (length [ex_result]) \<le> 1"
    by simp
  from Search_limit [of ex_engine ex_db_indexed "''kubelet''" "- 3" _ ?kubelet] h
  have c: "Search ex_engine ex_db_indexed ''kubelet'' (- 3) = Inr []"
    by blast
  from a b c ex_search_certs show ?thesis by blast
qed

theorem thread_classification_witness:
  "threadRoot (ex_result\<lparr>ThreadTS := ''1565852000.000100''\<rparr>) = ''1565852000.000100''
   \<and> IsThreaded (threadContext ex_lookup (ex_result\<lparr>ThreadTS := ''1565852000.000100''\<rparr>))
   \<and> ThreadMessages (threadContext ex_lookup (ex_result\<lparr>ThreadTS := ''1565852000.000100''\<rparr>))
       = [ex_message_alice, ex_message]
   \<and> threadRoot (ex_result\<lparr>ReplyCount := 2\<rparr>) = ''1565852586.087600''
   \<and> \<not> IsThreaded (threadContext ex_lookup (ex_result\<lparr>ReplyCount := 2\<rparr>))
   \<and> \<not> IsThreaded (threadContext ex_lookup (ex_result\<lparr>ThreadTS := ''1565000000.000000''\<rparr>))
   \<and> \<not> IsThreaded (threadContext ex_lookup ex_result)"
proof -
  let ?reply = "ex_result\<lparr>ThreadTS := ''1565852000.000100''\<rparr>"
  let ?starter = "ex_result\<lparr>ReplyCount := 2\<rparr>"
  let ?lost = "ex_result\<lparr>ThreadTS := ''1565000000.000000''\<rparr>"
  have r1: "ThreadTS ?reply \<noteq> ''''" by simp
  have r2: "ThreadTS ?starter = '''' \<and> ReplyCount ?starter > 0" by (simp add: ex_result_def)
  have r3: "ThreadTS ?lost \<noteq> ''''" by simp
  have r4: "ThreadTS ex_result = '''' \<and> ReplyCount ex_result \<le> 0" by (simp add: ex_result_def)
  note t1 = thread_classification [of ?reply ex_lookup QueryError "[ex_message_alice, ex_message]"]
  note t2 = thread_classification [of ?starter ex_lookup QueryError "[ex_message]"]
  note t3 = thread_classification [of ?lost ex_lookup QueryError "[]"]
  note t4 = thread_classification [of ex_result ex_lookup QueryError "[]"]
  from t1 r1 have a: "threadRoot ?reply = ''1565852000.000100''" by simp
  have "ex_lookup ''1565852000.000100'' = Inr [ex_message_alice, ex_message]"
    by (simp add: ex_lookup_def)
  with t1 a have b: "IsThreaded (threadContext ex_lookup ?reply)" by simp
  with t1 a have c: "ThreadMessages (threadContext ex_lookup ?reply) = [ex_message_alice, ex_message]"
    by (simp add: ex_lookup_def)
  from t2 r2 have d: "threadRoot ?starter = ''1565852586.087600''" by (simp add: ex_result_def)
  have "ex_lookup ''1565852586.087600'' = Inr [ex_message] \<and> length [ex_message] \<le> 1"
    by (simp add: ex_lookup_def)
  with t2 d have e: "\<not> IsThreaded (threadContext ex_lookup ?starter)" by metis
  from t3 r3 have "threadRoot ?lost = ''1565000000.000000''" by simp
  moreover have "ex_lookup ''1565000000.000000'' = Inl QueryError"
    by (simp add: ex_lookup_def)
  ultimately have f: "\<not> IsThreaded (threadContext ex_lookup ?lost)" using t3 by metis
  from t4 r4 have g: "\<not> IsThreaded (threadContext ex_lookup ex_result)" by blast
  from a b c d e f g show ?thesis by blast
qed

subsection \<open>Concrete runs: ingestion\<close>

theorem timestamp_fallback_witness:
  "acceptRecord (UTCDate 2019 8 15) ''2019-08-15.json'' ex_record = Some ex_message
   \<and> Timestamp ex_message = ''1565852586.087600''
   \<and> Date ex_message = Unix 1565852586 0
   \<and> map (\<lambda>r. (m_timestamp r, m_date r)) (messages (snd (InsertMessage (db ex_idx) ex_message)))
       = [(''1565852586.087600'', Unix 1565852586 0)]
   \<and> acceptRecord (UTCDate 2019 8 15) ''2019-08-15.json'' ex_record_bad_ts
       = Some (ex_message\<lparr>Text := ''no clock here'', Timestamp := ''yesterday'',
                          Date := UTCDate 2019 8 15\<rparr>)
   \<and> map (\<lambda>r. (m_timestamp r, m_date r))
         (messages (db (snd (processMessageFile ex_idx (Decoded (JArray [ex_record_bad_ts]))
                           ''2019-08-15.json''))))
       = [(''yesterday'', UTCDate 2019 8 15)]"
proof -
  let ?date = "UTCDate 2019 8 15"
  let ?file = "''2019-08-15.json''"
  let ?map = "map_of (rev [(''type'', JString ''message''), (''user'', JString ''U100''),
                           (''text'', JString ''rotate the certs''),
                           (''ts'', JString ''1565852586.087600'')])"
  let ?bad = "ex_message\<lparr>Text := ''no clock here'', Timestamp := ''yesterday'',
                          Date := UTCDate 2019 8 15\<rparr>"
  let ?bad_map = "map_of (rev [(''type'', JString ''message''), (''user'', JString ''U100''),
                           (''text'', JString ''no clock here''),
                           (''ts'', JString ''yesterday'')])"
  have h1: "Unmarshal_map ex_record = Inr ?map"
    by (simp add: Unmarshal_map_def ex_record_def)
  have h2: "acceptRecord ?date ?file ex_record = Some ex_message"
    by (simp add: run_defs ex_defs)
  have h3: "Parse_date (TrimSuffix ?file ''.json'') = Inr ?date"
    by (simp add: run_defs)
  have h4: "medium (db ex_idx) = []"
    by (simp add: ex_defs)
  have g1: "Unmarshal_map ex_record_bad_ts = Inr ?bad_map"
    by (simp add: Unmarshal_map_def ex_record_bad_ts_def)
  have g2: "acceptRecord ?date ?file ex_record_bad_ts = Some ?bad"
    by (simp add: run_defs ex_defs ex_record_bad_ts_def)
  note t = timestamp_fallback [OF h1 h2 h3 h4]
  note s = timestamp_fallback [OF g1 g2 h3 h4]
  have m0: "messages (db ex_idx) = []"
    by (simp add: ex_defs)
  from t have "Timestamp ex_message = string_or_zero (?map ''ts'')" by blast
  then have a: "Timestamp ex_message = ''1565852586.087600''"
    by (simp add: string_or_zero_def as_string_def)
  have b: "Date ex_message = Unix 1565852586 0"
    by (simp add: ex_message_def)
  from t have "map (\<lambda>r. (m_timestamp r, m_date r))
       (messages (snd (InsertMessage (db ex_idx) ex_message)))
       = map (\<lambda>r. (m_timestamp r, m_date r)) (messages (db ex_idx))
         @ [(Timestamp ex_message, Date ex_message)]"
    by blast
  then have c: "map (\<lambda>r. (m_timestamp r, m_date r))
       (messages (snd (InsertMessage (db ex_idx) ex_message)))
       = [(''1565852586.087600'', Unix 1565852586 0)]"
    by (simp add: m0 ex_message_def)
  from s have "processMessageFile ex_idx (Decoded (JArray [ex_record_bad_ts])) ?file
                 = (None, ex_idx\<lparr>db := snd (InsertMessage (db ex_idx) ?bad)\<rparr>)"
    and "map (\<lambda>r. (m_timestamp r, m_date r)) (messages (snd (InsertMessage (db ex_idx) ?bad)))
           = map (\<lambda>r. (m_timestamp r, m_date r)) (messages (db ex_idx))
             @ [(Timestamp ?bad, Date ?bad)]"
    by blast+
  then have d: "map (\<lambda>r. (m_timestamp r, m_date r))
         (messages (db (snd (processMessageFile ex_idx (Decoded (JArray [ex_record_bad_ts]))
                           ''2019-08-15.json''))))
       = [(''yesterday'', UTCDate 2019 8 15)]"
    by (simp add: m0)
  from h2 a b c g2 d show ?thesis by blast
qed

theorem skipped_records_never_stored_witness:
  "acceptRecord (UTCDate 2019 8 15) ''2019-08-15.json'' ex_record_bot = None
   \<and> acceptRecord (UTCDate 2019 8 15) ''2019-08-15.json'' ex_record_blank = None
   \<and> processMessageFile ex_idx
        (Decoded (JArray [ex_record, ex_record_bot, ex_record_next_day])) ''2019-08-15.json''
       = processMessageFile ex_idx
        (Decoded (JArray [ex_record, ex_record_next_day])) ''2019-08-15.json''
   \<and> map m_text (messages (db (snd (processMessageFile ex_idx
          (Decoded (JArray [ex_record_blank, ex_record, ex_record_next_day]))
          ''2019-08-15.json''))))
       = [''rotate the certs'', ''certs rotated'']"
proof -
  let ?date = "UTCDate 2019 8 15"
  let ?file = "''2019-08-15.json''"
  have h1: "(\<exists>err. Unmarshal_map ex_record_bot = Inl err)
         \<or> (\<exists>msgMap. Unmarshal_map ex_record_bot = Inr msgMap
              \<and> (as_string (msgMap ''user'') = None \<or> as_string (msgMap ''text'') = None
                   \<or> (\<exists>text. as_string (msgMap ''text'') = Some text
                         \<and> TrimSpace text = '''')
                   \<or> as_string (msgMap ''subtype'') = Some ''bot_message''))"
    by (simp add: Unmarshal_map_def ex_record_bot_def as_string_def)
  have h2: "(\<exists>err. Unmarshal_map ex_record_blank = Inl err)
         \<or> (\<exists>msgMap. Unmarshal_map ex_record_blank = Inr msgMap
              \<and> (as_string (msgMap ''user'') = None \<or> as_string (msgMap ''text'') = None
                   \<or> (\<exists>text. as_string (msgMap ''text'') = Some text
                         \<and> TrimSpace text = '''')
                   \<or> as_string (msgMap ''subtype'') = Some ''bot_message''))"
    by (simp add: Unmarshal_map_def ex_record_blank_def as_string_def TrimSpace_def
        unicodeSpaces_def)
  note t1 = skipped_records_never_stored
              [OF h1, of ?date ?file "db ex_idx" "[ex_record]" "[ex_record_next_day]" ex_idx]
  note t2 = skipped_records_never_stored
              [OF h2, of ?date ?file "db ex_idx" "[]" "[ex_record, ex_record_next_day]" ex_idx]
  have e: "map m_text (messages (db (snd (processMessageFile ex_idx
          (Decoded (JArray [ex_record, ex_record_next_day])) ''2019-08-15.json''))))
       = [''rotate the certs'', ''certs rotated'']"
    by (simp add: run_defs ex_defs)
  from t1 have a: "acceptRecord ?date ?file ex_record_bot = None" by blast
  from t2 have b: "acceptRecord ?date ?file ex_record_blank = None" by blast
  from t1 have c: "processMessageFile ex_idx
        (Decoded (JArray [ex_record, ex_record_bot, ex_record_next_day])) ''2019-08-15.json''
       = processMessageFile ex_idx
        (Decoded (JArray [ex_record, ex_record_next_day])) ''2019-08-15.json''"
    by simp
  from t2 e have d: "map m_text (messages (db (snd (processMessageFile ex_idx
          (Decoded (JArray [ex_record_blank, ex_record, ex_record_next_day]))
          ''2019-08-15.json''))))
       = [''rotate the certs'', ''certs rotated'']"
    by simp
  from a b c d show ?thesis by blast
qed

theorem upsert_idempotent_witness:
  "medium (db ex_idx) = []
   \<and> length (users (db ex_idx)) = 2
   \<and> fst (InsertUser (db ex_idx) (toUser (ex_alice\<lparr>UserJSON_Name := ''alice.l''\<rparr>))) = None
   \<and> users (snd (InsertUser (db ex_idx) (toUser (ex_alice\<lparr>UserJSON_Name := ''alice.l''\<rparr>))))
       = [\<lparr>u_id = ''B200'', u_name = ''deploybot'', u_real_name = Some ''Deploy Bot'',
           u_display_name = '''', u_is_bot = True, u_deleted = False\<rparr>,
          \<lparr>u_id = ''U100'', u_name = ''alice.l'', u_real_name = Some ''Alice Liddell'',
           u_display_name = ''ali'', u_is_bot = False, u_deleted = False\<rparr>]
   \<and> channels (snd (InsertChannel (db ex_idx) (ex_channel\<lparr>Channel_IsArchived := True\<rparr>)))
       = [\<lparr>c_id = ''C300'', c_name = ''sig-auth'', c_created = 1565000000,
           c_creator = ''U100'', c_is_archived = True\<rparr>]
   \<and> loadUsers (snd (loadUsers ex_idx (Decoded [ex_bot, ex_alice\<lparr>UserJSON_Deleted := True\<rparr>])))
         (Decoded [ex_bot, ex_alice\<lparr>UserJSON_Deleted := True\<rparr>])
       = loadUsers ex_idx (Decoded [ex_bot, ex_alice\<lparr>UserJSON_Deleted := True\<rparr>])
   \<and> users (db (snd (loadUsers
         (snd (loadUsers ex_idx (Decoded [ex_bot, ex_alice\<lparr>UserJSON_Deleted := True\<rparr>])))
         (Decoded [ex_bot, ex_alice\<lparr>UserJSON_Deleted := True\<rparr>]))))
       = [\<lparr>u_id = ''B200'', u_name = ''deploybot'', u_real_name = Some ''Deploy Bot'',
           u_display_name = '''', u_is_bot = True, u_deleted = False\<rparr>,
          \<lparr>u_id = ''U100'', u_name = ''alice'', u_real_name = Some ''Alice Liddell'',
           u_display_name = ''ali'', u_is_bot = False, u_deleted = True\<rparr>]
   \<and> channels (db (snd (loadChannels
         (snd (loadChannels ex_idx (Decoded [ex_channel\<lparr>Channel_Name := ''sig-auth-old''\<rparr>])))
         (Decoded [ex_channel\<lparr>Channel_Name := ''sig-auth-old''\<rparr>]))))
       = [\<lparr>c_id = ''C300'', c_name = ''sig-auth-old'', c_created = 1565000000,
           c_creator = ''U100'', c_is_archived = False\<rparr>]"
proof -
  let ?alice = "toUser (ex_alice\<lparr>UserJSON_Name := ''alice.l''\<rparr>)"
  let ?chan = "ex_channel\<lparr>Channel_IsArchived := True\<rparr>"
  let ?us = "[ex_bot, ex_alice\<lparr>UserJSON_Deleted := True\<rparr>]"
  let ?cs = "[ex_channel\<lparr>Channel_Name := ''sig-auth-old''\<rparr>]"
  have m: "medium (db ex_idx) = []"
    by (simp add: ex_defs)
  have n: "length (users (db ex_idx)) = 2"
    by (simp add: ex_defs)
  have tab: "users (db ex_idx)
       = [\<lparr>u_id = ''U100'', u_name = ''alice'', u_real_name = Some ''Alice Liddell'',
           u_display_name = ''ali'', u_is_bot = False, u_deleted = False\<rparr>,
          \<lparr>u_id = ''B200'', u_name = ''deploybot'', u_real_name = Some ''Deploy Bot'',
           u_display_name = '''', u_is_bot = True, u_deleted = False\<rparr>]"
    and ctab: "channels (db ex_idx)
       = [\<lparr>c_id = ''C300'', c_name = ''sig-auth'', c_created = 1565000000,
           c_creator = ''U100'', c_is_archived = False\<rparr>]"
    by (simp_all add: ex_defs)
  have h1: "distinct (map u_id (users (db ex_idx))) \<and> User_ID ?alice \<in> u_id ` set (users (db ex_idx))"
    by (simp add: ex_defs)
  have h2: "distinct (map c_id (channels (db ex_idx)))
            \<and> Channel_ID ?chan \<in> c_id ` set (channels (db ex_idx))"
    by (simp add: ex_defs)
  have h3: "''U100'' \<in> UserJSON_ID ` set ?us" "''C300'' \<in> Channel_ID ` set ?cs"
    by (simp_all add: ex_defs)
  note t = upsert_idempotent [OF m, of ?alice ?chan ?us "''U100''" ?cs "''C300''"]
  from t have a: "fst (InsertUser (db ex_idx) ?alice) = None" by blast
  from t h1 n have len: "length (users (snd (InsertUser (db ex_idx) ?alice))) = 2" by simp
  have b: "users (snd (InsertUser (db ex_idx) ?alice))
       = [\<lparr>u_id = ''B200'', u_name = ''deploybot'', u_real_name = Some ''Deploy Bot'',
           u_display_name = '''', u_is_bot = True, u_deleted = False\<rparr>,
          \<lparr>u_id = ''U100'', u_name = ''alice.l'', u_real_name = Some ''Alice Liddell'',
           u_display_name = ''ali'', u_is_bot = False, u_deleted = False\<rparr>]"
    by (simp add: InsertUser_no_faults [OF m] tab insert_or_replace_def users_values_def
        toUser_def ex_alice_def)
  have c: "channels (snd (InsertChannel (db ex_idx) ?chan))
       = [\<lparr>c_id = ''C300'', c_name = ''sig-auth'', c_created = 1565000000,
           c_creator = ''U100'', c_is_archived = True\<rparr>]"
    by (simp add: InsertChannel_no_faults [OF m] ctab insert_or_replace_def channels_values_def
        ex_channel_def)
  from t have d: "loadUsers (snd (loadUsers ex_idx (Decoded ?us))) (Decoded ?us)
                    = loadUsers ex_idx (Decoded ?us)"
    by blast
  have e: "users (db (snd (loadUsers ex_idx (Decoded ?us))))
       = [\<lparr>u_id = ''B200'', u_name = ''deploybot'', u_real_name = Some ''Deploy Bot'',
           u_display_name = '''', u_is_bot = True, u_deleted = False\<rparr>,
          \<lparr>u_id = ''U100'', u_name = ''alice'', u_real_name = Some ''Alice Liddell'',
           u_display_name = ''ali'', u_is_bot = False, u_deleted = True\<rparr>]"
    by (simp add: loadUsers_def InsertUser_def Exec_def insert_or_replace_def Let_def ex_defs)
  from t have g: "loadChannels (snd (loadChannels ex_idx (Decoded ?cs))) (Decoded ?cs)
                    = loadChannels ex_idx (Decoded ?cs)"
    by blast
  have f: "channels (db (snd (loadChannels ex_idx (Decoded ?cs))))
       = [\<lparr>c_id = ''C300'', c_name = ''sig-auth-old'', c_created = 1565000000,
           c_creator = ''U100'', c_is_archived = False\<rparr>]"
    by (simp add: loadChannels_def InsertChannel_def Exec_def insert_or_replace_def Let_def
        ex_defs)
  from m n a b c d show ?thesis
    unfolding d g e f by simp
qed

subsection \<open>Numbers out of range and dates that do not read back\<close>

lemma float64_range_2: "float64_range 2 0"
  by (simp add: float64_range_def)

lemma float64_range_2e308: "\<not> float64_range 2 308"
  by (simp add: float64_range_def)

lemma record_with_huge_number_is_skipped:
  "acceptRecord (UTCDate 2019 8 15) ''2019-08-15.json''
     (JObject [(''type'', JString ''message''), (''user'', JString ''U100''),
               (''text'', JString ''rotate the certs''),
               (''ts'', JString ''1565852586.087600''),
               (''reply_count'', JNumber 2 308)]) = None"
  by (simp add: acceptRecord_def Unmarshal_map_def float64_range_2e308)

lemma record_with_number_is_accepted:
  "acceptRecord (UTCDate 2019 8 15) ''2019-08-15.json''
     (JObject [(''type'', JString ''message''), (''user'', JString ''U100''),
               (''text'', JString ''rotate the certs''),
               (''ts'', JString ''1565852586.087600''),
               (''reply_count'', JNumber 2 0)]) = Some ex_message"
  by (simp add: run_defs ex_defs float64_range_2)

lemma scan_of_unreadable_date:
  "\<not> reads_back eng (m_date m) \<Longrightarrow> Date (scan_result eng query fts m u) = UTCDate 1 1 1"
  by (simp add: scan_result_def)

end
